theory Spec2Isabelle
  imports Main
begin

section \<open>Python strings and POSIX paths\<close>

text \<open>
  Strings are byte strings. The library functions the two handlers call on them are
  written out as Python defines them: \<open>s.rstrip(c)\<close> for a one-character set,
  \<open>sub in s\<close>, \<open>s.startswith\<close>, \<open>s.replace(old, new)\<close> (one scan from the left,
  matches do not overlap, the result is not scanned again), \<open>s.lower()\<close> on ASCII
  letters, \<open>s.strip(c)\<close>, \<open>s.split(c)\<close>, \<open>os.path.join\<close> and \<open>os.path.dirname\<close>.
\<close>

type_synonym filepath = string

definition rstrip :: "char \<Rightarrow> string \<Rightarrow> string" where
  "rstrip c s = rev (dropWhile (\<lambda>x. x = c) (rev s))"

definition lstrip :: "char \<Rightarrow> string \<Rightarrow> string" where
  "lstrip c s = dropWhile (\<lambda>x. x = c) s"

definition strip :: "char \<Rightarrow> string \<Rightarrow> string" where
  "strip c s = rstrip c (lstrip c s)"

definition startswith :: "string \<Rightarrow> string \<Rightarrow> bool" where
  "startswith sub s = (take (length sub) s = sub)"

definition endswith :: "string \<Rightarrow> string \<Rightarrow> bool" where
  "endswith sub s = (drop (length s - length sub) s = sub)"

fun contains :: "string \<Rightarrow> string \<Rightarrow> bool" where
  "contains sub [] = (sub = [])"
| "contains sub (c # cs) = (startswith sub (c # cs) \<or> contains sub cs)"

function str_replace :: "string \<Rightarrow> string \<Rightarrow> string \<Rightarrow> string" where
  "str_replace old new s =
     (if old = [] then new @ concat (map (\<lambda>c. c # new) s)
      else if s = [] then []
      else if startswith old s then new @ str_replace old new (drop (length old) s)
      else hd s # str_replace old new (tl s))"
  by pat_completeness auto
termination
  by (relation "measure (\<lambda>(old, new, s). length s)") (auto simp: neq_Nil_conv)

declare str_replace.simps [simp del]

fun split :: "char \<Rightarrow> string \<Rightarrow> string list" where
  "split c [] = [[]]"
| "split c (x # xs) =
     (if x = c then [] # split c xs
      else (case split c xs of [] \<Rightarrow> [[x]] | p # ps \<Rightarrow> (x # p) # ps))"

definition lower_char :: "char \<Rightarrow> char" where
  "lower_char c =
     (case map_of (zip ''ABCDEFGHIJKLMNOPQRSTUVWXYZ'' ''abcdefghijklmnopqrstuvwxyz'') c of
        None \<Rightarrow> c | Some d \<Rightarrow> d)"

definition lower :: "string \<Rightarrow> string" where
  "lower s = map lower_char s"

definition path_join :: "filepath \<Rightarrow> filepath \<Rightarrow> filepath" where
  "path_join a b =
     (if startswith ''/'' b then b
      else if a = [] \<or> endswith ''/'' a then a @ b
      else a @ ''/'' @ b)"

definition dirname :: "filepath \<Rightarrow> filepath" where
  "dirname p =
     (let head = rev (dropWhile (\<lambda>x. x \<noteq> CHR ''/'') (rev p))
      in if head \<noteq> [] \<and> head \<noteq> replicate (length head) (CHR ''/'')
         then rstrip (CHR ''/'') head else head)"

section \<open>The file system\<close>

text \<open>
  The file system is the list of the paths that exist, each with the flag "is a
  directory". The order of the list stands for the order in which \<open>os.listdir\<close>
  reports entries.
\<close>

type_synonym filesystem = "(filepath \<times> bool) list"

definition path_exists :: "filesystem \<Rightarrow> filepath \<Rightarrow> bool" where
  "path_exists f p = (p \<in> fst ` set f)"

definition isdir :: "filesystem \<Rightarrow> filepath \<Rightarrow> bool" where
  "isdir f p = ((p, True) \<in> set f)"

definition beneath :: "filepath \<Rightarrow> filepath \<Rightarrow> bool" where
  "beneath d p = startswith (if endswith ''/'' d then d else d @ ''/'') p"

definition in_tree :: "filepath \<Rightarrow> filepath \<Rightarrow> bool" where
  "in_tree d p = (p = d \<or> beneath d p)"

definition listdir :: "filesystem \<Rightarrow> filepath \<Rightarrow> string list" where
  "listdir f d =
     remdups (filter (\<lambda>n. n \<noteq> [] \<and> CHR ''/'' \<notin> set n)
       (map (\<lambda>e. drop (length d + 1) (fst e)) (filter (\<lambda>e. startswith (d @ ''/'') (fst e)) f)))"

text \<open>\<open>shutil.rmtree(d, ignore_errors=True)\<close>: nothing happens unless \<open>d\<close> is a directory.\<close>

definition rmtree :: "filesystem \<Rightarrow> filepath \<Rightarrow> filesystem" where
  "rmtree f d = (if isdir f d then filter (\<lambda>e. \<not> in_tree d (fst e)) f else f)"

section \<open>Python values and exceptions\<close>

datatype json =
    JNull
  | JBool bool
  | JInt int
  | JString string
  | JArray "json list"
  | JObject "(string \<times> json) list"

text \<open>Truth value testing, as \<open>if not x\<close> applies it.\<close>

fun truthy :: "json \<Rightarrow> bool" where
  "truthy JNull = False"
| "truthy (JBool b) = b"
| "truthy (JInt i) = (i \<noteq> 0)"
| "truthy (JString s) = (s \<noteq> [])"
| "truthy (JArray xs) = (xs \<noteq> [])"
| "truthy (JObject kvs) = (kvs \<noteq> [])"

text \<open>
  An exception is its class name (\<open>type(e).__name__\<close>) and its text (\<open>str(e)\<close>).
\<close>

datatype exn = Exn (exn_type: string) (exn_str: string)

text \<open>
  Library functions whose results the handlers only pass on: \<open>json.loads\<close> (\<open>None\<close> is
  \<open>JSONDecodeError\<close>), \<open>json.dumps\<close>, \<open>str()\<close> of a decoded value inside an f-string,
  \<open>urllib.parse.unquote\<close>, \<open>bytes.decode("utf-8").strip()\<close>, and the text of an error
  the interpreter raises at a named place.
\<close>

record pylib =
  json_loads :: "string \<Rightarrow> json option"
  json_dumps :: "json \<Rightarrow> string"
  str_of :: "json \<Rightarrow> string"
  unquote :: "string \<Rightarrow> string"
  decode_strip :: "string \<Rightarrow> string"
  errtext :: "string \<Rightarrow> string"

text \<open>\<open>x in v\<close> for a string \<open>x\<close>: keys of a dict, elements of a list, substrings of a string.\<close>

fun py_in :: "pylib \<Rightarrow> string \<Rightarrow> json \<Rightarrow> exn + bool" where
  "py_in L x (JObject kvs) = Inr (x \<in> fst ` set kvs)"
| "py_in L x (JArray xs) = Inr (JString x \<in> set xs)"
| "py_in L x (JString s) = Inr (contains x s)"
| "py_in L x v = Inl (Exn ''TypeError'' (errtext L ''in''))"

text \<open>\<open>v[k]\<close> for a string key.\<close>

fun subscript :: "pylib \<Rightarrow> json \<Rightarrow> string \<Rightarrow> exn + json" where
  "subscript L (JObject kvs) k =
     (case map_of kvs k of
        None \<Rightarrow> Inl (Exn ''KeyError'' (CHR 0x27 # k @ [CHR 0x27]))
      | Some v \<Rightarrow> Inr v)"
| "subscript L v k = Inl (Exn ''TypeError'' (errtext L ''subscript''))"

text \<open>A value inside an f-string: a string is itself, anything else is its \<open>str()\<close>.\<close>

definition fmt :: "pylib \<Rightarrow> json \<Rightarrow> string" where
  "fmt L v = (case v of JString s \<Rightarrow> s | _ \<Rightarrow> str_of L v)"

section \<open>Child processes and the outside world\<close>

text \<open>
  A child process as \<open>subprocess.Popen\<close> creates it: its command line, working
  directory, \<open>PYTHONPATH\<close>, which of its three streams are pipes, the chunks written
  to its standard input so far (in order, each marked with the statement that wrote
  it: one of the two writes of the initialization handshake, or the write of the
  caller's message), the lines of its standard output that have not been read yet
  (reading past the end is end of stream), and whether it is still running.
\<close>

datatype origin = Handshake | UserMessage

record proc =
  argv :: "string list"
  cwd :: filepath
  pythonpath :: string
  stdin_piped :: bool
  stdout_piped :: bool
  stderr_piped :: bool
  stdin_log :: "(origin \<times> string) list"
  stdout_lines :: "string list"
  running :: bool

text \<open>
  The world outside the handler: the file system, the URLs handed to
  \<open>urllib.request.urlretrieve\<close>, the requirements files \<open>pip\<close> was run on, the
  processes spawned so far (a process is named by its index) and a wall clock in
  seconds, which the blocking calls advance.
\<close>

record world =
  fs :: filesystem
  fetched :: "string list"
  pip_runs :: "filepath list"
  procs :: "proc list"
  clock :: nat

datatype s3_result = NoSuchKey | S3Failure string | S3Body string

datatype fetch_result =
    FetchFailed exn
  | BadArchive exn
  | Archive "(filepath \<times> bool) list"

text \<open>
  What the outside world answers during one invocation: the object store, the random
  suffix of \<open>tempfile.mkdtemp\<close>, the download (a failure of \<open>urlretrieve\<close>, a file that
  \<open>zipfile\<close> rejects, or the entries extraction creates, relative to the target and
  directories included) and how long it takes, how long \<open>pip\<close> runs, the interpreter's
  path and environment, and the behaviour of the child that is spawned: whether it is
  still running when it is first written to, the lines it prints (persistent variant),
  and for \<open>communicate\<close> (single-shot variant) after how many seconds it exits, if
  ever, with which return code and output. \<open>post_error\<close> is the failure of
  \<open>post_to_connection\<close>, if it fails.
\<close>

record outside =
  s3_get :: "string \<Rightarrow> s3_result"
  tmp_token :: string
  urlretrieve :: "string \<Rightarrow> fetch_result"
  download_secs :: nat
  pip_secs :: nat
  sys_executable :: filepath
  environ_pythonpath :: "string option"
  child_running :: bool
  child_lines :: "string list"
  child_exit_secs :: "nat option"
  child_returncode :: int
  child_stdout :: string
  child_stderr :: string
  post_error :: "exn option"

definition os_rename :: "pylib \<Rightarrow> filesystem \<Rightarrow> filepath \<Rightarrow> filepath \<Rightarrow> exn + filesystem" where
  "os_rename L f src dst =
     (if \<not> path_exists f src then Inl (Exn ''FileNotFoundError'' (errtext L ''rename''))
      else if src = dst then Inr f
      else if path_exists f dst \<and> \<not> isdir f dst
        then Inl (Exn ''NotADirectoryError'' (errtext L ''rename''))
      else if list_ex (\<lambda>e. beneath dst (fst e)) f
        then Inl (Exn ''OSError'' (errtext L ''rename''))
      else Inr (map (\<lambda>e. if in_tree src (fst e) then (dst @ drop (length src) (fst e), snd e) else e)
                  (filter (\<lambda>e. fst e \<noteq> dst) f)))"

definition os_remove :: "pylib \<Rightarrow> filesystem \<Rightarrow> filepath \<Rightarrow> exn + filesystem" where
  "os_remove L f p =
     (if \<not> path_exists f p then Inl (Exn ''FileNotFoundError'' (errtext L ''remove''))
      else if isdir f p then Inl (Exn ''IsADirectoryError'' (errtext L ''remove''))
      else Inr (filter (\<lambda>e. fst e \<noteq> p) f))"

definition mkdtemp :: "outside \<Rightarrow> string \<Rightarrow> filepath" where
  "mkdtemp E pre = ''/tmp/'' @ pre @ tmp_token E"

text \<open>The archive address both variants of \<open>clone_repo\<close> compute from the repository URL.\<close>

definition zip_url_of :: "string \<Rightarrow> string" where
  "zip_url_of repo_url =
     str_replace ''.git'' '''' (rstrip (CHR ''/'') repo_url) @ ''/archive/refs/heads/main.zip''"

text \<open>
  From \<open>urlretrieve\<close> to the return of \<open>clone_repo\<close>: download, extract, take the first
  directory \<open>os.listdir\<close> reports, rename it to \<open>repo\<close>, delete the archive. The two
  variants differ in the message for an archive without a folder.
\<close>

definition fetch_and_unpack ::
  "pylib \<Rightarrow> outside \<Rightarrow> string \<Rightarrow> 'a world_scheme \<Rightarrow> filepath \<Rightarrow> string \<Rightarrow> (exn + filepath) \<times> 'a world_scheme" where
  "fetch_and_unpack L E no_folder w temp_dir zip_url =
     (let rdir = path_join temp_dir ''repo'';
          zip_path = path_join temp_dir ''repo.zip'';
          w2 = w\<lparr>fetched := fetched w @ [zip_url], clock := clock w + download_secs E\<rparr>
      in case urlretrieve E zip_url of
           FetchFailed e \<Rightarrow> (Inl e, w2)
         | BadArchive e \<Rightarrow> (Inl e, w2\<lparr>fs := fs w2 @ [(zip_path, False)]\<rparr>)
         | Archive entries \<Rightarrow>
             (let f3 = fs w2 @ [(zip_path, False)] @ map (\<lambda>e. (temp_dir @ ''/'' @ fst e, snd e)) entries;
                  folders = filter (\<lambda>n. isdir f3 (path_join temp_dir n)) (listdir f3 temp_dir)
              in case folders of
                   [] \<Rightarrow> (Inl (Exn ''Exception'' no_folder), w2\<lparr>fs := f3\<rparr>)
                 | f0 # _ \<Rightarrow>
                     (case os_rename L f3 (path_join temp_dir f0) rdir of
                        Inl e \<Rightarrow> (Inl e, w2\<lparr>fs := f3\<rparr>)
                      | Inr f4 \<Rightarrow>
                          (case os_remove L f4 zip_path of
                             Inl e \<Rightarrow> (Inl e, w2\<lparr>fs := f4\<rparr>)
                           | Inr f5 \<Rightarrow> (Inr rdir, w2\<lparr>fs := f5\<rparr>)))))"

text \<open>
  \<open>fetch_meta\<close>: both files read \<open><name>.json\<close> from the bucket and differ only in the
  two messages.
\<close>

definition fetch_meta_with :: "string \<Rightarrow> string \<Rightarrow> pylib \<Rightarrow> outside \<Rightarrow> json \<Rightarrow> exn + json" where
  "fetch_meta_with not_found failed L E mcp_name =
     (let key = fmt L mcp_name @ ''.json''
      in case s3_get E key of
           NoSuchKey \<Rightarrow> Inl (Exn ''FileNotFoundError'' (not_found @ key))
         | S3Failure m \<Rightarrow> Inl (Exn ''Exception'' (failed @ m))
         | S3Body text \<Rightarrow>
             (case json_loads L text of
                None \<Rightarrow> Inl (Exn ''Exception'' (failed @ errtext L ''json.loads''))
              | Some v \<Rightarrow> Inr v))"

text \<open>
  \<open>install_deps\<close>: the same in both files up to what is printed. Without a
  \<open>requirements.txt\<close> nothing happens. Otherwise \<open>/tmp/pip_modules\<close> is created
  (\<open>os.makedirs\<close> raises when the path is a file) and \<open>pip\<close> is run for at most 180
  seconds; whatever \<open>pip\<close> does or raises is only printed. The files \<open>pip\<close> writes are
  not tracked.
\<close>

definition install_deps ::
  "pylib \<Rightarrow> outside \<Rightarrow> 'a world_scheme \<Rightarrow> filepath \<Rightarrow> (exn + unit) \<times> 'a world_scheme" where
  "install_deps L E w rdir =
     (let req_file = path_join rdir ''requirements.txt'';
          pip_target = ''/tmp/pip_modules''
      in if \<not> path_exists (fs w) req_file then (Inr (), w)
         else if path_exists (fs w) pip_target \<and> \<not> isdir (fs w) pip_target
           then (Inl (Exn ''FileExistsError'' (errtext L ''makedirs'')), w)
         else (Inr (),
               w\<lparr>fs := (if isdir (fs w) pip_target then fs w else fs w @ [(pip_target, True)]),
                 pip_runs := pip_runs w @ [req_file],
                 clock := clock w + min (pip_secs E) 180\<rparr>))"

text \<open>
  The environment both variants give the child: \<open>PYTHONPATH\<close> starts with the
  workspace, and with \<open>/tmp/pip_modules\<close> before it when that path exists.
\<close>

definition child_pythonpath :: "outside \<Rightarrow> filesystem \<Rightarrow> filepath \<Rightarrow> string" where
  "child_pythonpath E f rdir =
     (let pp = rdir @ '':'' @ (case environ_pythonpath E of None \<Rightarrow> [] | Some v \<Rightarrow> v)
      in if path_exists f ''/tmp/pip_modules'' then ''/tmp/pip_modules:'' @ pp else pp)"

text \<open>
  \<open>subprocess.Popen([sys.executable, entrypoint_path], stdin=PIPE, stdout=PIPE,
  stderr=PIPE, cwd=repo_dir, env=env)\<close>: it raises when \<open>cwd\<close> is not a directory;
  otherwise the new process is appended to the table and its index returned.
\<close>

definition spawned :: "outside \<Rightarrow> filesystem \<Rightarrow> filepath \<Rightarrow> filepath \<Rightarrow> proc" where
  "spawned E f entrypoint_path rdir =
     \<lparr>argv = [sys_executable E, entrypoint_path], cwd = rdir,
      pythonpath = child_pythonpath E f rdir,
      stdin_piped = True, stdout_piped = True, stderr_piped = True,
      stdin_log = [], stdout_lines = child_lines E,
      running = child_running E\<rparr>"

definition popen ::
  "pylib \<Rightarrow> outside \<Rightarrow> 'a world_scheme \<Rightarrow> filepath \<Rightarrow> filepath \<Rightarrow> (exn + nat) \<times> 'a world_scheme" where
  "popen L E w entrypoint_path rdir =
     (if \<not> isdir (fs w) rdir then (Inl (Exn ''FileNotFoundError'' (errtext L ''Popen'')), w)
      else (Inr (length (procs w)), w\<lparr>procs := procs w @ [spawned E (fs w) entrypoint_path rdir]\<rparr>))"

text \<open>
  Writing a chunk to a child's standard input and flushing: \<open>BrokenPipeError\<close> once the
  child has exited. Reading one line of its standard output: the empty string at end
  of stream. \<open>Popen.kill\<close>.
\<close>

definition stdin_write ::
  "pylib \<Rightarrow> 'a world_scheme \<Rightarrow> nat \<Rightarrow> origin \<Rightarrow> string \<Rightarrow> (exn + unit) \<times> 'a world_scheme" where
  "stdin_write L w p from chunk =
     (if p < length (procs w) \<and> running (procs w ! p)
      then (Inr (), w\<lparr>procs := (procs w)[p := (procs w ! p)\<lparr>stdin_log := stdin_log (procs w ! p) @ [(from, chunk)]\<rparr>]\<rparr>)
      else (Inl (Exn ''BrokenPipeError'' (errtext L ''write'')), w))"

definition stdout_readline :: "'a world_scheme \<Rightarrow> nat \<Rightarrow> string \<times> 'a world_scheme" where
  "stdout_readline w p =
     (if p < length (procs w)
      then (case stdout_lines (procs w ! p) of
              [] \<Rightarrow> ([], w)
            | l # ls \<Rightarrow> (l, w\<lparr>procs := (procs w)[p := (procs w ! p)\<lparr>stdout_lines := ls\<rparr>]\<rparr>))
      else ([], w))"

definition kill :: "'a world_scheme \<Rightarrow> nat \<Rightarrow> 'a world_scheme" where
  "kill w p = (if p < length (procs w) then w\<lparr>procs := (procs w)[p := (procs w ! p)\<lparr>running := False\<rparr>]\<rparr> else w)"

definition poll_exited :: "'a world_scheme \<Rightarrow> nat \<Rightarrow> bool" where
  "poll_exited w p = (\<not> (p < length (procs w) \<and> running (procs w ! p)))"

section \<open>The persistent variant (src/aws/lambda.py)\<close>

text \<open>\<open>clone_repo\<close> of src/aws/lambda.py: the body of its \<open>try\<close>, then the function.\<close>

definition aws_clone_attempt ::
  "pylib \<Rightarrow> outside \<Rightarrow> 'a world_scheme \<Rightarrow> filepath \<Rightarrow> json \<Rightarrow> (exn + filepath) \<times> 'a world_scheme" where
  "aws_clone_attempt L E w1 temp_dir repo_url =
     (case py_in L ''github.com'' repo_url of
        Inl e \<Rightarrow> (Inl e, w1)
      | Inr False \<Rightarrow> (Inl (Exn ''ValueError'' ''Only GitHub repos supported''), w1)
      | Inr True \<Rightarrow>
          (case repo_url of
             JString u \<Rightarrow> fetch_and_unpack L E ''No folder in ZIP'' w1 temp_dir (zip_url_of u)
           | _ \<Rightarrow> (Inl (Exn ''AttributeError'' (errtext L ''rstrip'')), w1)))"

definition aws_clone_repo ::
  "pylib \<Rightarrow> outside \<Rightarrow> 'a world_scheme \<Rightarrow> json \<Rightarrow> json \<Rightarrow> (exn + filepath) \<times> 'a world_scheme" where
  "aws_clone_repo L E w repo_url mcp_name =
     (let temp_dir = mkdtemp E (''mcp_'' @ fmt L mcp_name @ ''_'');
          w1 = w\<lparr>fs := fs w @ [(temp_dir, True)]\<rparr>
      in case aws_clone_attempt L E w1 temp_dir repo_url of
           (Inr rdir, w') \<Rightarrow> (Inr rdir, w')
         | (Inl e, w') \<Rightarrow>
             (Inl (Exn ''Exception'' (''Clone failed: '' @ exn_str e)),
              w'\<lparr>fs := rmtree (fs w') temp_dir\<rparr>))"

definition aws_fetch_meta :: "pylib \<Rightarrow> outside \<Rightarrow> json \<Rightarrow> exn + json" where
  "aws_fetch_meta = fetch_meta_with ''MCP not found: '' ''S3 error: ''"

text \<open>\<open>start_server\<close> of src/aws/lambda.py.\<close>

definition start_server ::
  "pylib \<Rightarrow> outside \<Rightarrow> 'a world_scheme \<Rightarrow> filepath \<Rightarrow> json \<Rightarrow> json \<Rightarrow> (exn + nat) \<times> 'a world_scheme" where
  "start_server L E w rdir entrypoint lang =
     (case lang of
        JString l \<Rightarrow>
          if lower l \<noteq> ''python'' then (Inl (Exn ''ValueError'' (''Unsupported language: '' @ l)), w)
          else (case entrypoint of
                  JString ep \<Rightarrow>
                    (let entrypoint_path = path_join rdir ep
                     in if \<not> path_exists (fs w) entrypoint_path
                        then (Inl (Exn ''FileNotFoundError'' (''Entrypoint not found: '' @ ep)), w)
                        else popen L E w entrypoint_path rdir)
                | _ \<Rightarrow> (Inl (Exn ''TypeError'' (errtext L ''join'')), w))
      | _ \<Rightarrow> (Inl (Exn ''AttributeError'' (errtext L ''lower'')), w))"

subsection \<open>Module state, events and responses\<close>

type_synonym qparams = "(string \<times> string) list"

fun dict_set :: "'k \<Rightarrow> 'v \<Rightarrow> ('k \<times> 'v) list \<Rightarrow> ('k \<times> 'v) list" where
  "dict_set k v [] = [(k, v)]"
| "dict_set k v (e # es) = (if fst e = k then (k, v) # es else e # dict_set k v es)"

text \<open>
  The module-level variables \<open>_mcp_process\<close>, \<open>_repo_dir\<close> and \<open>_connection_params\<close>,
  with the world, and the calls of \<open>post_to_connection\<close> made so far (endpoint,
  connection, data).
\<close>

record state = world +
  mcp_process :: "nat option"
  repo_dir :: "filepath option"
  connection_params :: "(string \<times> qparams) list"
  posted :: "(string \<times> string \<times> string) list"

record request_context =
  routeKey :: "string option"
  connectionId :: "string option"
  domainName :: "string option"
  stage :: "string option"

record event =
  requestContext :: "request_context option"
  rawPath :: string
  path :: string
  queryStringParameters :: "qparams option"
  body :: string

record response =
  statusCode :: nat
  headers :: "(string \<times> string) list"
  resp_body :: "string option"

text \<open>\<open>event.get("requestContext", {}).get(k)\<close> and \<open>event["requestContext"][k]\<close>.\<close>

definition ctx_get :: "event \<Rightarrow> (request_context \<Rightarrow> string option) \<Rightarrow> string option" where
  "ctx_get ev field = (case requestContext ev of None \<Rightarrow> None | Some c \<Rightarrow> field c)"

definition ctx_item :: "event \<Rightarrow> (request_context \<Rightarrow> string option) \<Rightarrow> string \<Rightarrow> exn + string" where
  "ctx_item ev field k =
     (case requestContext ev of
        None \<Rightarrow> Inl (Exn ''KeyError'' (CHR 0x27 # ''requestContext'' @ [CHR 0x27]))
      | Some c \<Rightarrow>
          (case field c of
             None \<Rightarrow> Inl (Exn ''KeyError'' (CHR 0x27 # k @ [CHR 0x27]))
           | Some v \<Rightarrow> Inr v))"

definition dict_get :: "('k \<times> 'v) list \<Rightarrow> 'k \<Rightarrow> 'v \<Rightarrow> 'v" where
  "dict_get d k dflt = (case map_of d k of None \<Rightarrow> dflt | Some v \<Rightarrow> v)"

text \<open>Sequencing of steps that may raise: the first exception ends the sequence.\<close>

definition and_then ::
  "(exn + 'a) \<times> 's \<Rightarrow> ('a \<Rightarrow> 's \<Rightarrow> (exn + 'b) \<times> 's) \<Rightarrow> (exn + 'b) \<times> 's" where
  "and_then m f = (case m of (Inl e, s) \<Rightarrow> (Inl e, s) | (Inr a, s) \<Rightarrow> f a s)"

subsection \<open>Connect and disconnect\<close>

definition handle_connect :: "state \<Rightarrow> event \<Rightarrow> response \<times> state" where
  "handle_connect s ev =
     (let connection_id = (case ctx_get ev connectionId of None \<Rightarrow> [] | Some c \<Rightarrow> c);
          query_params = (case queryStringParameters ev of None \<Rightarrow> [] | Some q \<Rightarrow> q);
          mcp_name = dict_get query_params ''name'' []
      in if mcp_name = []
         then (\<lparr>statusCode = 400, headers = [], resp_body = Some (''Missing '' @ [CHR 0x27] @ ''name'' @ [CHR 0x27] @ '' parameter'')\<rparr>, s)
         else (\<lparr>statusCode = 200, headers = [], resp_body = None\<rparr>,
               s\<lparr>connection_params := dict_set connection_id query_params (connection_params s)\<rparr>))"

definition handle_disconnect :: "state \<Rightarrow> event \<Rightarrow> response \<times> state" where
  "handle_disconnect s ev =
     (let s1 = (case mcp_process s of None \<Rightarrow> s | Some p \<Rightarrow> (kill s p)\<lparr>mcp_process := None\<rparr>);
          s2 = (case repo_dir s1 of
                  None \<Rightarrow> s1
                | Some d \<Rightarrow>
                    if d \<noteq> [] \<and> path_exists (fs s1) d
                    then s1\<lparr>fs := rmtree (fs s1) (dirname d), repo_dir := None\<rparr>
                    else s1)
      in (\<lparr>statusCode = 200, headers = [], resp_body = None\<rparr>, s2))"

subsection \<open>Messages\<close>

definition newline :: char where
  "newline = CHR 0x0A"

definition init_message :: json where
  "init_message =
     JObject [(''jsonrpc'', JString ''2.0''), (''id'', JInt 0), (''method'', JString ''initialize''),
       (''params'', JObject [(''protocolVersion'', JString ''2025-11-25''),
          (''capabilities'', JObject []),
          (''clientInfo'', JObject [(''name'', JString ''superbox''), (''version'', JString ''1.0.0'')])])]"

definition notif_message :: json where
  "notif_message = JObject [(''jsonrpc'', JString ''2.0''), (''method'', JString ''notifications/initialized'')]"

text \<open>The two lines of the handshake as they are written: \<open>json.dumps(m) + "\\n"\<close>.\<close>

definition init_line :: "pylib \<Rightarrow> string" where
  "init_line L = json_dumps L init_message @ [newline]"

definition notif_line :: "pylib \<Rightarrow> string" where
  "notif_line L = json_dumps L notif_message @ [newline]"

text \<open>\<open>d.pop(k)\<close> and \<open>d[k] = v\<close> on a decoded value.\<close>

fun dict_pop :: "pylib \<Rightarrow> json \<Rightarrow> string \<Rightarrow> exn + (json \<times> json)" where
  "dict_pop L (JObject kvs) k =
     (case map_of kvs k of
        None \<Rightarrow> Inl (Exn ''KeyError'' (CHR 0x27 # k @ [CHR 0x27]))
      | Some v \<Rightarrow> Inr (v, JObject (filter (\<lambda>e. fst e \<noteq> k) kvs)))"
| "dict_pop L (JArray xs) k = Inl (Exn ''TypeError'' (errtext L ''pop''))"
| "dict_pop L v k = Inl (Exn ''AttributeError'' (errtext L ''pop''))"

fun setitem :: "pylib \<Rightarrow> json \<Rightarrow> string \<Rightarrow> json \<Rightarrow> exn + json" where
  "setitem L (JObject kvs) k v = Inr (JObject (dict_set k v kvs))"
| "setitem L d k v = Inl (Exn ''TypeError'' (errtext L ''setitem''))"

text \<open>The test \<open>"method" in d and "params" not in d and "id" in d\<close>.\<close>

definition lacks_params :: "pylib \<Rightarrow> json \<Rightarrow> exn + bool" where
  "lacks_params L md =
     (case py_in L ''method'' md of
        Inl e \<Rightarrow> Inl e
      | Inr False \<Rightarrow> Inr False
      | Inr True \<Rightarrow>
          (case py_in L ''params'' md of
             Inl e \<Rightarrow> Inl e
           | Inr True \<Rightarrow> Inr False
           | Inr False \<Rightarrow> py_in L ''id'' md))"

text \<open>
  The body of the inner \<open>try\<close> of \<open>handle_message\<close> after \<open>json.loads\<close>: the name taken
  out of the message (\<open>None\<close> when there is none) and the message to forward.
\<close>

definition rewrite_message :: "pylib \<Rightarrow> json \<Rightarrow> exn + (json \<times> json)" where
  "rewrite_message L md =
     (case py_in L ''_mcp_name'' md of
        Inl e \<Rightarrow> Inl e
      | Inr has \<Rightarrow>
          (case (if has then dict_pop L md ''_mcp_name'' else Inr (JNull, md)) of
             Inl e \<Rightarrow> Inl e
           | Inr (mcp_name, md1) \<Rightarrow>
               (case lacks_params L md1 of
                  Inl e \<Rightarrow> Inl e
                | Inr c \<Rightarrow>
                    (case (if c then setitem L md1 ''params'' (JObject []) else Inr md1) of
                       Inl e \<Rightarrow> Inl e
                     | Inr md2 \<Rightarrow> Inr (mcp_name, md2)))))"

text \<open>
  The inner \<open>try\<close> with its handler: \<open>JSONDecodeError\<close> and \<open>KeyError\<close> leave the body as
  it came; any other exception goes on to the outer handler.
\<close>

definition prepare :: "pylib \<Rightarrow> string \<Rightarrow> exn + (json \<times> string)" where
  "prepare L text =
     (case json_loads L text of
        None \<Rightarrow> Inr (JNull, text)
      | Some md \<Rightarrow>
          (case rewrite_message L md of
             Inl e \<Rightarrow> if exn_type e = ''KeyError'' then Inr (JNull, text) else Inl e
           | Inr (mcp_name, md2) \<Rightarrow> Inr (mcp_name, json_dumps L md2)))"

subsection \<open>Cold start, relay and the handler\<close>

definition test_metadata :: "pylib \<Rightarrow> qparams \<Rightarrow> string \<Rightarrow> json" where
  "test_metadata L query_params repo_url =
     JObject [(''repository'', JObject [(''url'', JString (unquote L repo_url))]),
              (''entrypoint'', JString (dict_get query_params ''entrypoint'' ''main.py'')),
              (''lang'', JString (dict_get query_params ''lang'' ''python''))]"

text \<open>Lines 101 to 104 of \<open>handle_message\<close>: the name used for the cold start.\<close>

definition resolve_name :: "qparams \<Rightarrow> json \<Rightarrow> exn + json" where
  "resolve_name query_params name_in =
     (if truthy name_in then Inr name_in
      else if query_params = []
        then Inl (Exn ''ValueError'' ''MCP name not provided in message or connection params'')
      else Inr (case map_of query_params ''name'' of None \<Rightarrow> JNull | Some n \<Rightarrow> JString n))"

text \<open>
  Lines 98 to 120: the descriptor (from the query parameters in test mode, from the
  store otherwise), the workspace, which is recorded in \<open>_repo_dir\<close>, and the
  dependencies.
\<close>

definition provision ::
  "pylib \<Rightarrow> outside \<Rightarrow> state \<Rightarrow> event \<Rightarrow> json \<Rightarrow> (exn + filepath \<times> json) \<times> state" where
  "provision L E s ev name_in =
     (let connection_id = (case ctx_get ev connectionId of None \<Rightarrow> [] | Some c \<Rightarrow> c);
          query_params = dict_get (connection_params s) connection_id [];
          is_test_mode = (lower (dict_get query_params ''test_mode'' []) = ''true'');
          repo_url = dict_get query_params ''repo_url'' []
      in and_then (resolve_name query_params name_in, s)
        (\<lambda>mcp_name s0. and_then
           (if is_test_mode \<and> repo_url \<noteq> [] then Inr (test_metadata L query_params repo_url)
            else aws_fetch_meta L E mcp_name, s0)
        (\<lambda>metadata s1. and_then
           (case subscript L metadata ''repository'' of Inl e \<Rightarrow> Inl e | Inr r \<Rightarrow> subscript L r ''url'', s1)
        (\<lambda>url s2. and_then (aws_clone_repo L E s2 url mcp_name)
        (\<lambda>rd s3. and_then (install_deps L E (s3\<lparr>repo_dir := Some rd\<rparr>) rd)
        (\<lambda>u s4. (Inr (rd, metadata), s4)))))))"

text \<open>
  Lines 125 to 146: the \<open>initialize\<close> request, one line read from the child and only
  printed, the \<open>notifications/initialized\<close> notification.
\<close>

definition handshake :: "pylib \<Rightarrow> state \<Rightarrow> nat \<Rightarrow> (exn + unit) \<times> state" where
  "handshake L s p =
     and_then (stdin_write L s p Handshake (init_line L))
       (\<lambda>u s1. case stdout_readline s1 p of
          (init_response_line, s2) \<Rightarrow>
            stdin_write L s2 p Handshake (notif_line L))"

text \<open>Lines 96 to 146: the branch taken when there is no process or it has exited.\<close>

definition cold_start :: "pylib \<Rightarrow> outside \<Rightarrow> state \<Rightarrow> event \<Rightarrow> json \<Rightarrow> (exn + nat) \<times> state" where
  "cold_start L E s ev name_in =
     and_then (provision L E s ev name_in)
       (\<lambda>(rd, metadata) s4. and_then (subscript L metadata ''entrypoint'', s4)
       (\<lambda>ep s5. and_then (subscript L metadata ''lang'', s5)
       (\<lambda>lg s6. and_then (start_server L E s6 rd ep lg)
       (\<lambda>p s7. and_then (handshake L (s7\<lparr>mcp_process := Some p\<rparr>) p)
       (\<lambda>u s8. (Inr p, s8))))))"

definition post_to_connection ::
  "outside \<Rightarrow> state \<Rightarrow> string \<Rightarrow> string \<Rightarrow> string \<Rightarrow> (exn + unit) \<times> state" where
  "post_to_connection E s endpoint_url connection_id data =
     (case post_error E of
        Some e \<Rightarrow> (Inl e, s)
      | None \<Rightarrow> (Inr (), s\<lparr>posted := posted s @ [(endpoint_url, connection_id, data)]\<rparr>))"

definition send_to_client :: "outside \<Rightarrow> state \<Rightarrow> event \<Rightarrow> string \<Rightarrow> (exn + unit) \<times> state" where
  "send_to_client E s ev data =
     and_then (ctx_item ev connectionId ''connectionId'', s)
       (\<lambda>connection_id s1. and_then (ctx_item ev domainName ''domainName'', s1)
       (\<lambda>domain s2. and_then (ctx_item ev stage ''stage'', s2)
       (\<lambda>stg s3. post_to_connection E s3 (''https://'' @ domain @ ''/'' @ stg) connection_id data)))"

definition relay :: "pylib \<Rightarrow> outside \<Rightarrow> state \<Rightarrow> event \<Rightarrow> nat \<Rightarrow> string \<Rightarrow> (exn + unit) \<times> state" where
  "relay L E s ev p text =
     and_then (stdin_write L s p UserMessage (text @ [newline]))
       (\<lambda>u s1. case stdout_readline s1 p of
          (response_line, s2) \<Rightarrow> send_to_client E s2 ev (decode_strip L response_line))"

definition error_envelope :: "pylib \<Rightarrow> exn \<Rightarrow> string" where
  "error_envelope L e = json_dumps L (JObject [(''error'', JString (exn_str e)), (''type'', JString (exn_type e))])"

definition handle_message :: "pylib \<Rightarrow> outside \<Rightarrow> state \<Rightarrow> event \<Rightarrow> response \<times> state" where
  "handle_message L E s ev =
     (case and_then (prepare L (body ev), s)
             (\<lambda>(mcp_name, text) s1. and_then
                (case mcp_process s1 of
                   None \<Rightarrow> cold_start L E s1 ev mcp_name
                 | Some p \<Rightarrow> if poll_exited s1 p then cold_start L E s1 ev mcp_name else (Inr p, s1))
             (\<lambda>p s2. relay L E s2 ev p text))
      of (Inr u, s') \<Rightarrow> (\<lparr>statusCode = 200, headers = [], resp_body = None\<rparr>, s')
       | (Inl e, s') \<Rightarrow>
           (\<lparr>statusCode = 500, headers = [], resp_body = Some (exn_str e)\<rparr>,
            snd (send_to_client E s' ev (error_envelope L e))))"

definition aws_lambda_handler :: "pylib \<Rightarrow> outside \<Rightarrow> state \<Rightarrow> event \<Rightarrow> response \<times> state" where
  "aws_lambda_handler L E s ev =
     (let route_key = ctx_get ev routeKey
      in if route_key = Some ''$connect'' then handle_connect s ev
         else if route_key = Some ''$disconnect'' then handle_disconnect s ev
         else if route_key = Some ''$default'' then handle_message L E s ev
         else (\<lparr>statusCode = 400, headers = [], resp_body = Some ''Unknown route''\<rparr>, s))"

subsection \<open>Runs of the persistent handler\<close>

text \<open>
  One container serves its invocations one after the other. Between two invocations a
  child may exit by itself.
\<close>

datatype input = Invoke event outside | ChildExit nat

fun step :: "pylib \<Rightarrow> state \<Rightarrow> input \<Rightarrow> state" where
  "step L s (Invoke ev E) = snd (aws_lambda_handler L E s ev)"
| "step L s (ChildExit p) = kill s p"

definition run :: "pylib \<Rightarrow> state \<Rightarrow> input list \<Rightarrow> state" where
  "run L s ins = foldl (step L) s ins"

definition initial :: "filesystem \<Rightarrow> state" where
  "initial f =
     \<lparr>fs = f, fetched = [], pip_runs = [], procs = [], clock = 0,
      mcp_process = None, repo_dir = None, connection_params = [], posted = []\<rparr>"

section \<open>The single-shot variant (src/lambda.py)\<close>

definition extract_name :: "event \<Rightarrow> exn + string" where
  "extract_name ev =
     (let raw_path = (if rawPath ev = [] then path ev else rawPath ev);
          path_parts = split (CHR ''/'') (strip (CHR ''/'') raw_path);
          mcp_name = (if path_parts \<noteq> [] then last path_parts else [])
      in if mcp_name = [] then Inl (Exn ''ValueError'' ''MCP server name not found in request path'')
         else Inr mcp_name)"

definition fetch_meta :: "pylib \<Rightarrow> outside \<Rightarrow> json \<Rightarrow> exn + json" where
  "fetch_meta = fetch_meta_with ''MCP definition not found in S3: '' ''Failed to fetch MCP metadata: ''"

text \<open>\<open>clone_repo\<close> of src/lambda.py: the body of its \<open>try\<close>, then the function.\<close>

definition clone_attempt ::
  "pylib \<Rightarrow> outside \<Rightarrow> 'a world_scheme \<Rightarrow> filepath \<Rightarrow> json \<Rightarrow> (exn + filepath) \<times> 'a world_scheme" where
  "clone_attempt L E w1 temp_dir repo_url =
     (case py_in L ''github.com'' repo_url of
        Inl e \<Rightarrow> (Inl e, w1)
      | Inr True \<Rightarrow>
          (case repo_url of
             JString u \<Rightarrow>
               fetch_and_unpack L E ''No folder found in extracted ZIP'' w1 temp_dir (zip_url_of u)
           | _ \<Rightarrow> (Inl (Exn ''AttributeError'' (errtext L ''rstrip'')), w1))
      | Inr False \<Rightarrow>
          (Inl (Exn ''ValueError'' (''Only GitHub repositories are supported. Got: '' @ fmt L repo_url)), w1))"

definition clone_repo ::
  "pylib \<Rightarrow> outside \<Rightarrow> 'a world_scheme \<Rightarrow> json \<Rightarrow> json \<Rightarrow> (exn + filepath) \<times> 'a world_scheme" where
  "clone_repo L E w repo_url mcp_name =
     (let temp_dir = mkdtemp E (''mcp_'' @ fmt L mcp_name @ ''_'');
          w1 = w\<lparr>fs := fs w @ [(temp_dir, True)]\<rparr>
      in case clone_attempt L E w1 temp_dir repo_url of
           (Inr rdir, w') \<Rightarrow> (Inr rdir, w')
         | (Inl e, w') \<Rightarrow>
             (Inl (Exn ''Exception'' (''Failed to download repository: '' @ exn_str e)),
              if path_exists (fs w') temp_dir then w'\<lparr>fs := rmtree (fs w') temp_dir\<rparr> else w'))"

text \<open>
  \<open>process.communicate(input, timeout=30)\<close>: the input is written to the child (a
  child that has already exited is not written to, and that is not an error), then the
  call waits for the child to exit. A child that exits within 30 seconds gives its
  return code and output; otherwise \<open>TimeoutExpired\<close> is raised after 30 seconds.
\<close>

datatype completed = Completed int string string | TimeoutExpired

definition communicate ::
  "outside \<Rightarrow> 'a world_scheme \<Rightarrow> nat \<Rightarrow> string \<Rightarrow> nat \<Rightarrow> completed \<times> 'a world_scheme" where
  "communicate E w p inp timeout =
     (let w1 = (if p < length (procs w) \<and> running (procs w ! p)
                then w\<lparr>procs := (procs w)[p := (procs w ! p)\<lparr>stdin_log := stdin_log (procs w ! p) @ [(UserMessage, inp)]\<rparr>]\<rparr>
                else w)
      in case child_exit_secs E of
           None \<Rightarrow> (TimeoutExpired, w1\<lparr>clock := clock w1 + timeout\<rparr>)
         | Some t \<Rightarrow>
             if t \<le> timeout
             then (Completed (child_returncode E) (child_stdout E) (child_stderr E),
                   (kill w1 p)\<lparr>clock := clock w1 + t\<rparr>)
             else (TimeoutExpired, w1\<lparr>clock := clock w1 + timeout\<rparr>))"

definition run_server ::
  "pylib \<Rightarrow> outside \<Rightarrow> 'a world_scheme \<Rightarrow> filepath \<Rightarrow> json \<Rightarrow> json \<Rightarrow> string \<Rightarrow> (exn + string) \<times> 'a world_scheme" where
  "run_server L E w rdir entrypoint lang request_body =
     (case lang of
        JString l \<Rightarrow>
          if lower l \<noteq> ''python''
          then (Inl (Exn ''ValueError'' (''Unsupported language: '' @ l @ ''. Only Python is supported currently.'')), w)
          else (case entrypoint of
                  JString ep \<Rightarrow>
                    (let entrypoint_path = path_join rdir ep
                     in if \<not> path_exists (fs w) entrypoint_path
                        then (Inl (Exn ''FileNotFoundError'' (''Entrypoint not found: '' @ ep)), w)
                        else (case popen L E w entrypoint_path rdir of
                                (Inl e, w1) \<Rightarrow>
                                  (Inl (Exn ''Exception'' (''Failed to execute MCP server: '' @ exn_str e)), w1)
                              | (Inr p, w1) \<Rightarrow>
                                  (case communicate E w1 p request_body 30 of
                                     (TimeoutExpired, w2) \<Rightarrow>
                                       (Inl (Exn ''Exception'' ''MCP server execution timed out after 30 seconds''),
                                        kill w2 p)
                                   | (Completed returncode out err, w2) \<Rightarrow>
                                       if returncode \<noteq> 0
                                       then (Inl (Exn ''Exception'' (''Failed to execute MCP server: '' @
                                                    ''MCP server exited with code '' @ str_of L (JInt returncode) @ '': '' @
                                                    (if err \<noteq> [] then err else ''Unknown error''))), w2)
                                       else (Inr out, w2))))
                | _ \<Rightarrow> (Inl (Exn ''TypeError'' (errtext L ''join'')), w))
      | _ \<Rightarrow> (Inl (Exn ''AttributeError'' (errtext L ''lower'')), w))"

definition success_headers :: "(string \<times> string) list" where
  "success_headers =
     [(''Content-Type'', ''application/json''), (''Access-Control-Allow-Origin'', ''*''),
      (''Access-Control-Allow-Methods'', ''POST, OPTIONS''), (''Access-Control-Allow-Headers'', ''Content-Type'')]"

definition failure_headers :: "(string \<times> string) list" where
  "failure_headers = [(''Content-Type'', ''application/json''), (''Access-Control-Allow-Origin'', ''*'')]"

text \<open>The body of the \<open>try\<close> of \<open>lambda_handler\<close>.\<close>

definition serve :: "pylib \<Rightarrow> outside \<Rightarrow> world \<Rightarrow> event \<Rightarrow> (exn + string) \<times> world" where
  "serve L E w ev =
     (let query_params = (case queryStringParameters ev of None \<Rightarrow> [] | Some q \<Rightarrow> q);
          is_test_mode = (lower (dict_get query_params ''test_mode'' []) = ''true'');
          repo_url = dict_get query_params ''repo_url'' []
      in and_then (extract_name ev, w)
           (\<lambda>mcp_name w0. and_then
              (if is_test_mode \<and> repo_url \<noteq> [] then Inr (test_metadata L query_params repo_url)
               else fetch_meta L E (JString mcp_name), w0)
           (\<lambda>metadata w1. and_then
              (case subscript L metadata ''repository'' of Inl e \<Rightarrow> Inl e | Inr r \<Rightarrow> subscript L r ''url'', w1)
           (\<lambda>url w2. and_then (clone_repo L E w2 url (JString mcp_name))
           (\<lambda>rd w3. and_then (install_deps L E w3 rd)
           (\<lambda>u w4. and_then (subscript L metadata ''entrypoint'', w4)
           (\<lambda>ep w5. and_then (subscript L metadata ''lang'', w5)
           (\<lambda>lg w6. run_server L E w6 rd ep lg (body ev)))))))))"

definition lambda_handler :: "pylib \<Rightarrow> outside \<Rightarrow> world \<Rightarrow> event \<Rightarrow> response \<times> world" where
  "lambda_handler L E w ev =
     (case serve L E w ev of
        (Inr mcp_response, w') \<Rightarrow>
          (\<lparr>statusCode = 200, headers = success_headers, resp_body = Some mcp_response\<rparr>, w')
      | (Inl e, w') \<Rightarrow>
          (\<lparr>statusCode = 500, headers = failure_headers, resp_body = Some (error_envelope L e)\<rparr>, w'))"

section \<open>Predicates on states\<close>

text \<open>
  Two states that differ at most in the file system, the download and \<open>pip\<close> logs and
  the clock.
\<close>

definition files_only :: "'a world_scheme \<Rightarrow> 'a world_scheme \<Rightarrow> bool" where
  "files_only w w' = (procs w' = procs w \<and> world.more w' = world.more w)"

text \<open>
  What the invariants of the persistent handler speak about: for every process
  spawned so far, what has been written to it and whether it is running.
\<close>

definition logs :: "'a world_scheme \<Rightarrow> (origin \<times> string) list list" where
  "logs w = map stdin_log (procs w)"

definition alive :: "'a world_scheme \<Rightarrow> bool list" where
  "alive w = map running (procs w)"

text \<open>
  A standard input that has seen nothing, or the two handshake lines, in their order,
  and after them writes of callers' messages only.
\<close>

definition handshaken :: "pylib \<Rightarrow> (origin \<times> string) list \<Rightarrow> bool" where
  "handshaken L lg =
     (lg = [] \<or>
      (take 2 lg = [(Handshake, init_line L), (Handshake, notif_line L)] \<and>
       list_all (\<lambda>e. fst e = UserMessage) (drop 2 lg)))"

text \<open>
  The invariant of the module state: every process has a handshaken input, and a
  process that is running is the one \<open>_mcp_process\<close> refers to and has been written to.
\<close>

definition session_inv :: "pylib \<Rightarrow> state \<Rightarrow> bool" where
  "session_inv L s =
     list_all (\<lambda>i. handshaken L (logs s ! i) \<and>
                   (\<not> alive s ! i \<or> (mcp_process s = Some i \<and> logs s ! i \<noteq> [])))
       [0..<length (procs s)]"

section \<open>Concrete inputs\<close>

text \<open>
  Inputs on which the theorems below are evaluated: a serializer in the format of
  \<open>json.dumps\<close> for values whose strings need no escaping, a decoder that knows the
  messages used here, a repository whose archive holds \<open>main.py\<close> and
  \<open>requirements.txt\<close> under one folder, events of both transports, and variations
  of the outside world: a child that prints nothing, a child that never exits, a
  download that takes 1000 seconds.
\<close>

function show_nat :: "nat \<Rightarrow> string" where
  "show_nat n = (if n < 10 then [''0123456789'' ! n] else show_nat (n div 10) @ [''0123456789'' ! (n mod 10)])"
  by pat_completeness auto
termination
  by (relation "measure id") auto

declare show_nat.simps [simp del]

definition dq :: char where
  "dq = CHR 0x22"

fun intersperse :: "string \<Rightarrow> string list \<Rightarrow> string" where
  "intersperse sep [] = []"
| "intersperse sep [x] = x"
| "intersperse sep (x # y # zs) = x @ sep @ intersperse sep (y # zs)"

fun render :: "json \<Rightarrow> string" where
  "render JNull = ''null''"
| "render (JBool b) = (if b then ''true'' else ''false'')"
| "render (JInt i) = (if i < 0 then ''-'' else []) @ show_nat (nat \<bar>i\<bar>)"
| "render (JString s) = dq # s @ [dq]"
| "render (JArray xs) = ''['' @ intersperse '', '' (map render xs) @ '']''"
| "render (JObject kvs) = ''{'' @ intersperse '', '' (map (\<lambda>e. dq # fst e @ [dq] @ '': '' @ render (snd e)) kvs) @ ''}''"

definition ping :: json where
  "ping = JObject [(''jsonrpc'', JString ''2.0''), (''id'', JInt 1), (''method'', JString ''ping'')]"

definition named_ping :: "string \<Rightarrow> json" where
  "named_ping n = JObject [(''jsonrpc'', JString ''2.0''), (''id'', JInt 1), (''method'', JString ''ping''), (''_mcp_name'', JString n)]"

definition known_messages :: "json list" where
  "known_messages = [ping, named_ping ''other'', named_ping []]"

definition demo_lib :: pylib where
  "demo_lib = \<lparr>json_loads = (\<lambda>t. find (\<lambda>j. render j = t) known_messages), json_dumps = render,
      str_of = render, unquote = (\<lambda>t. t), decode_strip = rstrip newline, errtext = (\<lambda>k. k)\<rparr>"

definition demo_archive :: "(filepath \<times> bool) list" where
  "demo_archive = [(''demo-main'', True), (''demo-main/main.py'', False), (''demo-main/requirements.txt'', False)]"

definition demo_outside :: "string \<Rightarrow> outside" where
  "demo_outside token =
     \<lparr>s3_get = (\<lambda>k. NoSuchKey), tmp_token = token,
      urlretrieve = (\<lambda>u. if u = ''https://github.com/acme/demo/archive/refs/heads/main.zip''
                          then Archive demo_archive
                          else FetchFailed (Exn ''HTTPError'' ''HTTP Error 404: Not Found'')),
      download_secs = 2, pip_secs = 5, sys_executable = ''/var/lang/bin/python3'',
      environ_pythonpath = None, child_running = True,
      child_lines = [''{}'' @ [newline], ''{}'' @ [newline]],
      child_exit_secs = Some 1, child_returncode = 0, child_stdout = ''{}'', child_stderr = [],
      post_error = None\<rparr>"

definition demo_query :: "string \<Rightarrow> qparams" where
  "demo_query lg = [(''name'', ''demo''), (''test_mode'', ''true''), (''repo_url'', ''https://github.com/acme/demo''), (''lang'', lg)]"

definition ws_event :: "string \<Rightarrow> string \<Rightarrow> qparams option \<Rightarrow> string \<Rightarrow> event" where
  "ws_event route cid q text =
     \<lparr>requestContext = Some \<lparr>routeKey = Some route, connectionId = Some cid,
         domainName = Some ''api.example.com'', stage = Some ''prod''\<rparr>,
      rawPath = [], path = [], queryStringParameters = q, body = text\<rparr>"

definition http_event :: "string \<Rightarrow> qparams \<Rightarrow> string \<Rightarrow> event" where
  "http_event pth q text =
     \<lparr>requestContext = None, rawPath = pth, path = [], queryStringParameters = Some q, body = text\<rparr>"

definition empty_world :: world where
  "empty_world = \<lparr>fs = [], fetched = [], pip_runs = [], procs = [], clock = 0\<rparr>"



definition demo_connect :: "string \<Rightarrow> string \<Rightarrow> input" where
  "demo_connect cid lg = Invoke (ws_event ''$connect'' cid (Some (demo_query lg)) []) (demo_outside ''t0'')"

definition demo_message :: "string \<Rightarrow> string \<Rightarrow> string \<Rightarrow> input" where
  "demo_message cid text token = Invoke (ws_event ''$default'' cid None text) (demo_outside token)"

definition demo_disconnect :: "string \<Rightarrow> input" where
  "demo_disconnect cid = Invoke (ws_event ''$disconnect'' cid None []) (demo_outside ''t0'')"





section \<open>The archive that is fetched\<close>








section \<open>Spawning\<close>





section \<open>What each step leaves alone\<close>

lemma and_thenE:
  assumes "and_then m f = (r, s')"
  obtains (raised) e where "m = (Inl e, s')" "r = Inl e"
        | (went_on) a s1 where "m = (Inr a, s1)" "f a s1 = (r, s')"
  using assms by (auto simp: and_then_def split: prod.splits sum.splits)

lemma files_only_refl: "files_only w w"
  by (simp add: files_only_def)

lemma files_only_trans: "files_only a b \<Longrightarrow> files_only b c \<Longrightarrow> files_only a c"
  by (simp add: files_only_def)

lemma files_only_procs: "files_only w w' \<Longrightarrow> procs w' = procs w"
  by (simp add: files_only_def)

lemma files_only_state:
  "files_only s s' \<Longrightarrow> mcp_process s' = mcp_process s \<and> repo_dir s' = repo_dir s \<and>
     connection_params s' = connection_params s \<and> posted s' = posted s"
  by (cases s, cases s') (simp add: files_only_def)

lemma fetch_and_unpack_frame:
  "fetch_and_unpack L E msg w t z = (r, w') \<Longrightarrow> files_only w w'"
  unfolding files_only_def fetch_and_unpack_def Let_def
  by (auto split: fetch_result.splits list.splits sum.splits)

lemma aws_clone_attempt_frame:
  "aws_clone_attempt L E w t url = (r, w') \<Longrightarrow> files_only w w'"
  by (auto simp: aws_clone_attempt_def files_only_refl split: sum.splits bool.splits json.splits
        dest: fetch_and_unpack_frame)

lemma aws_clone_repo_frame:
  "aws_clone_repo L E w url n = (r, w') \<Longrightarrow> files_only w w'"
  by (auto simp: aws_clone_repo_def Let_def files_only_def split: sum.splits prod.splits
        dest!: aws_clone_attempt_frame)

lemma install_deps_frame:
  "install_deps L E w rd = (r, w') \<Longrightarrow> files_only w w'"
  by (auto simp: install_deps_def Let_def files_only_def split: if_splits)
lemma stdin_write_running:
  "p < length (procs w) \<Longrightarrow> running (procs w ! p) \<Longrightarrow>
   stdin_write L w p k c =
     (Inr (), w\<lparr>procs := (procs w)[p := (procs w ! p)\<lparr>stdin_log := stdin_log (procs w ! p) @ [(k, c)]\<rparr>]\<rparr>)"
  by (simp add: stdin_write_def)

lemma stdin_write_exited:
  "\<not> (p < length (procs w) \<and> running (procs w ! p)) \<Longrightarrow>
   stdin_write L w p k c = (Inl (Exn ''BrokenPipeError'' (errtext L ''write'')), w)"
  by (auto simp: stdin_write_def)

lemma stdout_readline_effect:
  "stdout_readline w p = (l, w') \<Longrightarrow>
     logs w' = logs w \<and> alive w' = alive w \<and> fs w' = fs w \<and> world.more w' = world.more w \<and>
     length (procs w') = length (procs w)"
  by (auto simp: stdout_readline_def logs_def alive_def map_update list_update_same_conv
        split: if_splits list.splits)

lemma stdin_write_effect:
  assumes "stdin_write L w p k c = (r, w')"
  shows "alive w' = alive w \<and> fs w' = fs w \<and> world.more w' = world.more w \<and>
         length (procs w') = length (procs w) \<and>
         (if p < length (procs w) \<and> running (procs w ! p)
          then r = Inr () \<and> logs w' = (logs w)[p := logs w ! p @ [(k, c)]]
          else (\<exists>e. r = Inl e) \<and> w' = w)"
  using assms
  by (auto simp: stdin_write_def logs_def alive_def map_update list_update_same_conv split: if_splits)

lemma more_state:
  "world.more s' = world.more s \<Longrightarrow> mcp_process s' = mcp_process s \<and> repo_dir s' = repo_dir s \<and>
     connection_params s' = connection_params s \<and> posted s' = posted s"
  by (cases s, cases s') simp

lemma handshake_effect:
  assumes "handshake L s p = (r, s')"
  shows "alive s' = alive s \<and> fs s' = fs s \<and> world.more s' = world.more s \<and>
         length (procs s') = length (procs s) \<and>
         (if p < length (procs s) \<and> running (procs s ! p)
          then r = Inr () \<and> logs s' = (logs s)[p := logs s ! p @ [(Handshake, init_line L), (Handshake, notif_line L)]]
          else (\<exists>e. r = Inl e) \<and> s' = s)"
proof (cases "p < length (procs s) \<and> running (procs s ! p)")
  case False
  then show ?thesis
    using assms by (auto simp: handshake_def and_then_def stdin_write_exited)
next
  case True
  obtain r1 s1 where w1: "stdin_write L s p Handshake (init_line L) = (r1, s1)"
    by (cases "stdin_write L s p Handshake (init_line L)")
  note e1 = stdin_write_effect [OF w1]
  from e1 True have r1: "r1 = Inr ()" by simp
  obtain l s2 where rl: "stdout_readline s1 p = (l, s2)"
    by (cases "stdout_readline s1 p")
  note e2 = stdout_readline_effect [OF rl]
  have w2: "stdin_write L s2 p Handshake (notif_line L) = (r, s')"
    using assms w1 r1 rl by (simp add: handshake_def and_then_def)
  note e3 = stdin_write_effect [OF w2]
  have run2: "p < length (procs s2) \<and> running (procs s2 ! p)"
  proof -
    have "alive s2 = alive s" using e1 e2 by simp
    then have "map running (procs s2) ! p = map running (procs s) ! p" by (simp add: alive_def)
    moreover have "length (procs s2) = length (procs s)" using e1 e2 by simp
    ultimately show ?thesis using True by simp
  qed
  have lp: "p < length (logs s)" using True by (simp add: logs_def)
  show ?thesis
    using True e1 e2 e3 run2 lp by simp
qed

lemma post_to_connection_effect:
  "post_to_connection E s u c d = (r, s') \<Longrightarrow>
     procs s' = procs s \<and> fs s' = fs s \<and> mcp_process s' = mcp_process s \<and>
     repo_dir s' = repo_dir s \<and> connection_params s' = connection_params s"
  by (auto simp: post_to_connection_def split: option.splits)

lemma send_to_client_effect:
  "send_to_client E s ev d = (r, s') \<Longrightarrow>
     procs s' = procs s \<and> fs s' = fs s \<and> mcp_process s' = mcp_process s \<and>
     repo_dir s' = repo_dir s \<and> connection_params s' = connection_params s"
  by (auto simp: send_to_client_def elim!: and_thenE dest!: post_to_connection_effect)

lemma relay_effect:
  assumes "relay L E s ev p t = (r, s')"
  shows "alive s' = alive s \<and> fs s' = fs s \<and> mcp_process s' = mcp_process s \<and>
         repo_dir s' = repo_dir s \<and> connection_params s' = connection_params s \<and>
         length (procs s') = length (procs s) \<and>
         (if p < length (procs s) \<and> running (procs s ! p)
          then logs s' = (logs s)[p := logs s ! p @ [(UserMessage, t @ [newline])]]
          else (\<exists>e. r = Inl e) \<and> s' = s)"
proof (cases "p < length (procs s) \<and> running (procs s ! p)")
  case False
  then show ?thesis
    using assms by (auto simp: relay_def and_then_def stdin_write_exited)
next
  case True
  obtain r1 s1 where w1: "stdin_write L s p UserMessage (t @ [newline]) = (r1, s1)"
    by (cases "stdin_write L s p UserMessage (t @ [newline])")
  note e1 = stdin_write_effect [OF w1]
  from e1 True have r1: "r1 = Inr ()" by simp
  obtain l s2 where rl: "stdout_readline s1 p = (l, s2)"
    by (cases "stdout_readline s1 p")
  note e2 = stdout_readline_effect [OF rl]
  have sc: "send_to_client E s2 ev (decode_strip L l) = (r, s')"
    using assms w1 r1 rl by (simp add: relay_def and_then_def)
  note e3 = send_to_client_effect [OF sc]
  have "logs s' = logs s2 \<and> alive s' = alive s2"
    using e3 by (simp add: logs_def alive_def)
  then show ?thesis
    using True e1 e2 e3 more_state [of s1 s] more_state [of s2 s1] by simp
qed
lemma files_only_keeps:
  "files_only a b \<Longrightarrow>
     procs b = procs a \<and> mcp_process b = mcp_process a \<and> connection_params b = connection_params a"
  using files_only_procs files_only_state by blast

lemma provision_effect:
  assumes "provision L E s ev nm = (r, s')"
  shows "procs s' = procs s \<and> mcp_process s' = mcp_process s \<and> connection_params s' = connection_params s"
  using assms
  by (auto simp: provision_def Let_def elim!: and_thenE
        dest!: aws_clone_repo_frame install_deps_frame files_only_keeps)

lemma start_server_effect:
  assumes "start_server L E s rd ep lg = (r, s')"
  shows "((\<exists>e. r = Inl e) \<and> s' = s) \<or>
         (r = Inr (length (procs s)) \<and> (\<exists>x. s' = s\<lparr>procs := procs s @ [spawned E (fs s) x rd]\<rparr>))"
  using assms
  by (auto simp: start_server_def popen_def Let_def split: json.splits if_splits)

lemma cold_start_effect:
  assumes "cold_start L E s ev nm = (r, s')"
  shows "connection_params s' = connection_params s \<and>
    (((\<exists>e. r = Inl e) \<and> logs s' = logs s \<and> alive s' = alive s \<and>
        mcp_process s' = mcp_process s \<and> length (procs s') = length (procs s)) \<or>
     (mcp_process s' = Some (length (procs s)) \<and> length (procs s') = Suc (length (procs s)) \<and>
       (((\<exists>e. r = Inl e) \<and> logs s' = logs s @ [[]] \<and> alive s' = alive s @ [False]) \<or>
        (r = Inr (length (procs s)) \<and>
         logs s' = logs s @ [[(Handshake, init_line L), (Handshake, notif_line L)]] \<and>
         alive s' = alive s @ [True]))))"
proof -
  let ?same = "\<lambda>t. procs t = procs s \<and> mcp_process t = mcp_process s \<and> connection_params t = connection_params s"
  have same_ok: "\<And>t e. ?same t \<Longrightarrow> r = Inl e \<Longrightarrow> s' = t \<Longrightarrow> ?thesis"
    by (simp add: logs_def alive_def)
  from assms show ?thesis
    unfolding cold_start_def
  proof (cases rule: and_thenE)
    case (raised e)
    then show ?thesis using provision_effect [of L E s ev nm "Inl e" s'] same_ok by blast
  next
    case (went_on a s4)
    obtain rd metadata where a: "a = (rd, metadata)" by (cases a)
    have s4: "?same s4" using provision_effect [OF went_on(1)] by simp
    from went_on(2) [unfolded a prod.case] show ?thesis
    proof (cases rule: and_thenE)
      case (raised e)
      then show ?thesis using s4 same_ok by auto
    next
      case (went_on ep s5)
      then have s5: "s5 = s4" by simp
      from went_on(2) show ?thesis
      proof (cases rule: and_thenE)
        case (raised e)
        then show ?thesis using s4 s5 same_ok by auto
      next
        case (went_on lg s6)
        then have s6: "s6 = s4" using s5 by simp
        from went_on(2) show ?thesis
        proof (cases rule: and_thenE)
          case (raised e)
          then show ?thesis
            using start_server_effect [of L E s6 rd ep lg "Inl e" s'] s4 s6 same_ok by auto
        next
          case (went_on p s7)
          from start_server_effect [OF went_on(1)]
          obtain x where p: "p = length (procs s4)"
            and s7: "s7 = s4\<lparr>procs := procs s4 @ [spawned E (fs s4) x rd]\<rparr>"
            using s6 by auto
          let ?s7 = "s7\<lparr>mcp_process := Some p\<rparr>"
          obtain r8 s8 where hs: "handshake L ?s7 p = (r8, s8)"
            by (cases "handshake L ?s7 p")
          note he = handshake_effect [OF hs]
          have fin: "r = (case r8 of Inl e \<Rightarrow> Inl e | Inr u \<Rightarrow> Inr p) \<and> s' = s8"
            using went_on(2) hs by (auto simp: and_then_def split: sum.splits)
          have l7: "logs ?s7 = logs s @ [[]] \<and> alive ?s7 = alive s @ [child_running E] \<and>
                    length (procs ?s7) = Suc (length (procs s)) \<and>
                    connection_params ?s7 = connection_params s \<and> mcp_process ?s7 = Some p"
            using s7 s4 by (simp add: logs_def alive_def spawned_def)
          have pn: "p = length (procs s)"
            using p s4 by simp
          have run7: "(p < length (procs ?s7) \<and> running (procs ?s7 ! p)) = child_running E"
            using s7 p by (simp add: spawned_def nth_append)
          have lp: "logs ?s7 ! p = []"
            using l7 pn by (simp add: logs_def nth_append)
          have more8: "mcp_process s8 = mcp_process ?s7 \<and> connection_params s8 = connection_params ?s7"
            using he more_state [of s8 ?s7] by simp
          show ?thesis
          proof (cases "child_running E")
            case True
            have pl: "p = length (logs s)"
              using pn by (simp add: logs_def)
            have "r8 = Inr () \<and> logs s8 = (logs ?s7)[p := logs ?s7 ! p @ [(Handshake, init_line L), (Handshake, notif_line L)]]"
              using he run7 True by simp
            then have "r8 = Inr () \<and> logs s8 = (logs s @ [[]])[p := [(Handshake, init_line L), (Handshake, notif_line L)]]"
              unfolding lp using l7 by simp
            then have a8: "r8 = Inr () \<and> logs s8 = logs s @ [[(Handshake, init_line L), (Handshake, notif_line L)]]"
              unfolding pl by simp
            have b8: "alive s8 = alive s @ [True]"
              using he l7 True by simp
            have c8: "length (procs s8) = Suc (length (procs s))"
              using he l7 by simp
            have d8: "mcp_process s8 = Some (length (procs s)) \<and> connection_params s8 = connection_params s"
              using more8 l7 pn by simp
            show ?thesis
              using a8 b8 c8 d8 fin pn by simp
          next
            case False
            then have "(\<exists>e. r8 = Inl e) \<and> s8 = ?s7"
              using he run7 by simp
            then show ?thesis
              using False fin l7 pn by auto
          qed
        qed
      qed
    qed
  qed
qed

section \<open>The invariant of the persistent handler\<close>

lemma session_inv_iff:
  "session_inv L s =
     (\<forall>i<length (procs s). handshaken L (logs s ! i) \<and>
        (alive s ! i \<longrightarrow> mcp_process s = Some i \<and> logs s ! i \<noteq> []))"
  by (auto simp: session_inv_def list_all_iff)

lemma handshaken_append_user:
  assumes "handshaken L lg" "lg \<noteq> []"
  shows "handshaken L (lg @ [(UserMessage, c)])"
proof -
  from assms have t: "take 2 lg = [(Handshake, init_line L), (Handshake, notif_line L)]"
    and d: "list_all (\<lambda>e. fst e = UserMessage) (drop 2 lg)"
    by (auto simp: handshaken_def)
  from t have "length (take 2 lg) = 2" by simp
  then have len: "2 \<le> length lg" by simp
  then show ?thesis
    using t d by (simp add: handshaken_def)
qed

lemma handshaken_first_message:
  "handshaken L [(Handshake, init_line L), (Handshake, notif_line L), (UserMessage, c)]"
  by (simp add: handshaken_def)

lemma handshaken_pair: "handshaken L [(Handshake, init_line L), (Handshake, notif_line L)]"
  by (simp add: handshaken_def)

lemma inv_unchanged:
  assumes "session_inv L s" "logs s' = logs s" "alive s' = alive s"
    "mcp_process s' = mcp_process s" "length (procs s') = length (procs s)"
  shows "session_inv L s'"
  using assms by (simp add: session_inv_iff)

lemma inv_append:
  assumes "session_inv L s" "\<forall>i<length (procs s). \<not> alive s ! i"
    "logs s' = logs s @ [lg]" "alive s' = alive s @ [b]"
    "length (procs s') = Suc (length (procs s))" "mcp_process s' = Some (length (procs s))"
    "handshaken L lg" "b \<longrightarrow> lg \<noteq> []"
  shows "session_inv L s'"
proof -
  have ll: "length (logs s) = length (procs s)" "length (alive s) = length (procs s)"
    by (simp_all add: logs_def alive_def)
  show ?thesis
    unfolding session_inv_iff
  proof (intro allI impI)
    fix i assume "i < length (procs s')"
    then have "i < length (procs s) \<or> i = length (procs s)"
      using assms(5) by auto
    then show "handshaken L (logs s' ! i) \<and> (alive s' ! i \<longrightarrow> mcp_process s' = Some i \<and> logs s' ! i \<noteq> [])"
    proof
      assume i: "i < length (procs s)"
      then have "handshaken L (logs s ! i)" "\<not> alive s ! i"
        using assms(1,2) by (auto simp: session_inv_iff)
      then show ?thesis
        using i assms(3,4) ll by (simp add: nth_append)
    next
      assume "i = length (procs s)"
      then show ?thesis
        using assms(3,4,6,7,8) ll by (simp add: nth_append)
    qed
  qed
qed

lemma inv_user_write:
  assumes "session_inv L s" "p < length (procs s)" "running (procs s ! p)"
    "logs s' = (logs s)[p := logs s ! p @ [(UserMessage, c)]]" "alive s' = alive s"
    "mcp_process s' = mcp_process s" "length (procs s') = length (procs s)"
  shows "session_inv L s'"
proof -
  have ll: "length (logs s) = length (procs s)"
    by (simp add: logs_def)
  have ap: "alive s ! p"
    using assms(2,3) by (simp add: alive_def)
  then have hp: "handshaken L (logs s ! p)" "logs s ! p \<noteq> []"
    using assms(1,2) by (auto simp: session_inv_iff)
  show ?thesis
    unfolding session_inv_iff
  proof (intro allI impI)
    fix i assume i: "i < length (procs s')"
    then have i': "i < length (procs s)" using assms(7) by simp
    show "handshaken L (logs s' ! i) \<and> (alive s' ! i \<longrightarrow> mcp_process s' = Some i \<and> logs s' ! i \<noteq> [])"
    proof (cases "i = p")
      case True
      then show ?thesis
        using assms(1,4,5,6) i' ll hp handshaken_append_user [OF hp]
        by (auto simp: session_inv_iff)
    next
      case False
      then show ?thesis
        using assms(1,4,5,6) i' ll by (auto simp: session_inv_iff)
    qed
  qed
qed

lemma none_alive_when_cold:
  assumes "session_inv L s" "mcp_process s = None \<or> (\<exists>p. mcp_process s = Some p \<and> poll_exited s p)"
  shows "\<forall>i<length (procs s). \<not> alive s ! i"
proof (intro allI impI notI)
  fix i assume i: "i < length (procs s)" and a: "alive s ! i"
  then have m: "mcp_process s = Some i"
    using assms(1) by (auto simp: session_inv_iff)
  then have "poll_exited s i"
    using assms(2) by auto
  then show False
    using i a by (simp add: poll_exited_def alive_def)
qed

lemma message_chain_inv:
  assumes inv: "session_inv L s"
    and run: "and_then (prepare L (body ev), s)
             (\<lambda>(mcp_name, text) s1. and_then
                (case mcp_process s1 of
                   None \<Rightarrow> cold_start L E s1 ev mcp_name
                 | Some p \<Rightarrow> if poll_exited s1 p then cold_start L E s1 ev mcp_name else (Inr p, s1))
             (\<lambda>p s2. relay L E s2 ev p text)) = (r, s')"
  shows "session_inv L s' \<and> connection_params s' = connection_params s"
  using run
proof (cases rule: and_thenE)
  case (raised e)
  then show ?thesis using inv by simp
next
  case (went_on a s1)
  obtain nm t where a: "a = (nm, t)" by (cases a)
  have s1: "s1 = s" using went_on(1) by simp
  show ?thesis
  proof (cases "mcp_process s = None \<or> (\<exists>p. mcp_process s = Some p \<and> poll_exited s p)")
    case False
    then obtain p where p: "mcp_process s = Some p" "\<not> poll_exited s p"
      by auto
    then have rp: "p < length (procs s)" "running (procs s ! p)"
      by (auto simp: poll_exited_def)
    have "relay L E s ev p t = (r, s')"
      using went_on(2) a s1 p by (simp add: and_then_def)
    from relay_effect [OF this] rp show ?thesis
      using inv_user_write [OF inv rp, of s' "t @ [newline]"] by simp
  next
    case True
    note dead = none_alive_when_cold [OF inv True]
    have cs: "and_then (cold_start L E s ev nm) (\<lambda>p s2. relay L E s2 ev p t) = (r, s')"
      using went_on(2) a s1 True by (auto split: option.splits)
    from cs show ?thesis
    proof (cases rule: and_thenE)
      case (raised e)
      from cold_start_effect [OF raised(1)] show ?thesis
        using inv dead inv_unchanged [of L s s'] inv_append [of L s s' "[]" False]
        by (auto simp: handshaken_def)
    next
      case (went_on p s2)
      from cold_start_effect [OF went_on(1)]
      have c: "connection_params s2 = connection_params s" "mcp_process s2 = Some (length (procs s))"
        "length (procs s2) = Suc (length (procs s))" "p = length (procs s)"
        "logs s2 = logs s @ [[(Handshake, init_line L), (Handshake, notif_line L)]]"
        "alive s2 = alive s @ [True]"
        by auto
      have "alive s2 ! p" using c by (simp add: alive_def nth_append)
      then have rp: "p < length (procs s2) \<and> running (procs s2 ! p)"
        using c by (simp add: alive_def)
      have lp: "logs s2 ! p = [(Handshake, init_line L), (Handshake, notif_line L)]"
        using c by (simp add: logs_def nth_append)
      have pl: "p = length (logs s)" using c by (simp add: logs_def)
      from relay_effect [OF went_on(2)] rp
      have e: "alive s' = alive s2" "mcp_process s' = mcp_process s2"
        "connection_params s' = connection_params s2" "length (procs s') = length (procs s2)"
        "logs s' = (logs s2)[p := logs s2 ! p @ [(UserMessage, t @ [newline])]]"
        by auto
      have "logs s' = (logs s @ [[(Handshake, init_line L), (Handshake, notif_line L)]])
                       [p := [(Handshake, init_line L), (Handshake, notif_line L), (UserMessage, t @ [newline])]]"
        using e(5) lp c(5) by simp
      then have l': "logs s' = logs s @ [[(Handshake, init_line L), (Handshake, notif_line L), (UserMessage, t @ [newline])]]"
        unfolding pl by simp
      show ?thesis
        using inv_append [OF inv dead l', of True] e c handshaken_first_message [of L "t @ [newline]"]
        by simp
    qed
  qed
qed

lemma handle_message_inv:
  assumes "session_inv L s"
  shows "session_inv L (snd (handle_message L E s ev)) \<and>
         connection_params (snd (handle_message L E s ev)) = connection_params s"
proof -
  obtain r s1 where ch: "and_then (prepare L (body ev), s)
             (\<lambda>(mcp_name, text) s1. and_then
                (case mcp_process s1 of
                   None \<Rightarrow> cold_start L E s1 ev mcp_name
                 | Some p \<Rightarrow> if poll_exited s1 p then cold_start L E s1 ev mcp_name else (Inr p, s1))
             (\<lambda>p s2. relay L E s2 ev p text)) = (r, s1)"
    by (cases "and_then (prepare L (body ev), s)
             (\<lambda>(mcp_name, text) s1. and_then
                (case mcp_process s1 of
                   None \<Rightarrow> cold_start L E s1 ev mcp_name
                 | Some p \<Rightarrow> if poll_exited s1 p then cold_start L E s1 ev mcp_name else (Inr p, s1))
             (\<lambda>p s2. relay L E s2 ev p text))")
  note i1 = message_chain_inv [OF assms ch]
  show ?thesis
  proof (cases r)
    case (Inr u)
    then show ?thesis using ch i1 by (simp add: handle_message_def)
  next
    case (Inl e)
    obtain r2 s2 where sc: "send_to_client E s1 ev (error_envelope L e) = (r2, s2)"
      by (cases "send_to_client E s1 ev (error_envelope L e)")
    from send_to_client_effect [OF sc] i1
    have "session_inv L s2 \<and> connection_params s2 = connection_params s"
      using inv_unchanged [of L s1 s2] by (simp add: logs_def alive_def)
    then show ?thesis using ch Inl sc by (simp add: handle_message_def)
  qed
qed

lemma kill_effect:
  "logs (kill w p) = logs w \<and> alive (kill w p) = (alive w)[p := False] \<and>
   length (procs (kill w p)) = length (procs w) \<and> fs (kill w p) = fs w \<and>
   world.more (kill w p) = world.more w"
  by (auto simp: kill_def logs_def alive_def map_update list_update_beyond list_update_same_conv)

lemma kill_inv:
  assumes "session_inv L s"
  shows "session_inv L (kill s p)"
proof -
  note k = kill_effect [of s p]
  have m: "mcp_process (kill s p) = mcp_process s"
    using k more_state [of "kill s p" s] by simp
  have la: "length (alive s) = length (procs s)" by (simp add: alive_def)
  show ?thesis
    unfolding session_inv_iff
  proof (intro allI impI)
    fix i assume "i < length (procs (kill s p))"
    then have i: "i < length (procs s)" using k by simp
    then have "alive (kill s p) ! i \<longrightarrow> alive s ! i"
      using k la by (cases "i = p") simp_all
    then show "handshaken L (logs (kill s p) ! i) \<and>
        (alive (kill s p) ! i \<longrightarrow> mcp_process (kill s p) = Some i \<and> logs (kill s p) ! i \<noteq> [])"
      using assms i k m by (auto simp: session_inv_iff)
  qed
qed

lemma handle_connect_effect:
  "procs (snd (handle_connect s ev)) = procs s \<and> mcp_process (snd (handle_connect s ev)) = mcp_process s \<and>
   fs (snd (handle_connect s ev)) = fs s \<and> repo_dir (snd (handle_connect s ev)) = repo_dir s"
  by (simp add: handle_connect_def Let_def)

lemma handle_connect_inv:
  "session_inv L s \<Longrightarrow> session_inv L (snd (handle_connect s ev))"
  using handle_connect_effect [of s ev] inv_unchanged [of L s "snd (handle_connect s ev)"]
  by (simp add: logs_def alive_def)

lemma handle_disconnect_effect:
  "mcp_process (snd (handle_disconnect s ev)) = None \<and>
   connection_params (snd (handle_disconnect s ev)) = connection_params s \<and>
   posted (snd (handle_disconnect s ev)) = posted s \<and>
   logs (snd (handle_disconnect s ev)) = logs s \<and>
   length (procs (snd (handle_disconnect s ev))) = length (procs s) \<and>
   alive (snd (handle_disconnect s ev)) =
     (case mcp_process s of None \<Rightarrow> alive s | Some p \<Rightarrow> (alive s)[p := False])"
proof -
  let ?s1 = "case mcp_process s of None \<Rightarrow> s | Some p \<Rightarrow> (kill s p)\<lparr>mcp_process := None\<rparr>"
  have s1: "mcp_process ?s1 = None \<and> connection_params ?s1 = connection_params s \<and>
            posted ?s1 = posted s \<and> logs ?s1 = logs s \<and> length (procs ?s1) = length (procs s) \<and>
            alive ?s1 = (case mcp_process s of None \<Rightarrow> alive s | Some p \<Rightarrow> (alive s)[p := False])"
  proof (cases "mcp_process s")
    case None
    then show ?thesis by simp
  next
    case (Some p)
    then show ?thesis
      using kill_effect [of s p] more_state [of "kill s p" s]
      by (simp add: logs_def alive_def)
  qed
  have "snd (handle_disconnect s ev) = ?s1 \<or>
        (\<exists>f. snd (handle_disconnect s ev) = ?s1\<lparr>fs := f, repo_dir := None\<rparr>)"
    by (auto simp: handle_disconnect_def Let_def split: option.splits)
  then show ?thesis
    using s1 by (auto simp: logs_def alive_def)
qed

lemma handle_disconnect_none_alive:
  assumes "session_inv L s" "i < length (procs s)"
  shows "\<not> alive (snd (handle_disconnect s ev)) ! i"
proof
  assume a: "alive (snd (handle_disconnect s ev)) ! i"
  note e = handle_disconnect_effect [of s ev]
  have la: "length (alive s) = length (procs s)" by (simp add: alive_def)
  show False
  proof (cases "mcp_process s")
    case None
    then show False using a e assms by (auto simp: session_inv_iff)
  next
    case (Some p)
    then have "alive s ! i \<and> i \<noteq> p"
      using a e assms(2) la by (cases "i = p") simp_all
    then show False using Some assms by (auto simp: session_inv_iff)
  qed
qed

lemma handle_disconnect_inv:
  assumes "session_inv L s"
  shows "session_inv L (snd (handle_disconnect s ev))"
  unfolding session_inv_iff
proof (intro allI impI)
  fix i assume "i < length (procs (snd (handle_disconnect s ev)))"
  then have i: "i < length (procs s)"
    using handle_disconnect_effect [of s ev] by simp
  then show "handshaken L (logs (snd (handle_disconnect s ev)) ! i) \<and>
      (alive (snd (handle_disconnect s ev)) ! i \<longrightarrow>
         mcp_process (snd (handle_disconnect s ev)) = Some i \<and> logs (snd (handle_disconnect s ev)) ! i \<noteq> [])"
    using handle_disconnect_none_alive [OF assms i, of ev] handle_disconnect_effect [of s ev] assms
    by (simp add: session_inv_iff)
qed

lemma step_inv:
  assumes "session_inv L s"
  shows "session_inv L (step L s x)"
proof (cases x)
  case (Invoke ev E)
  then show ?thesis
    using assms handle_connect_inv [of L s ev] handle_disconnect_inv [of L s ev]
      handle_message_inv [of L s E ev]
    by (simp add: aws_lambda_handler_def Let_def)
next
  case (ChildExit p)
  then show ?thesis using kill_inv [OF assms] by simp
qed

lemma run_inv:
  "session_inv L s \<Longrightarrow> session_inv L (run L s ins)"
  unfolding run_def by (induction ins arbitrary: s) (simp_all add: step_inv)

lemma initial_inv: "session_inv L (initial f)"
  by (simp add: session_inv_def initial_def)

lemma reachable_inv: "session_inv L (run L (initial f) ins)"
  by (rule run_inv [OF initial_inv])

section \<open>The single-shot handler and its child\<close>








section \<open>The handshake and the caller's messages\<close>




section \<open>One process, and what a disconnect does\<close>

lemma disconnect_removes_tree:
  assumes "repo_dir s = Some d" "d \<noteq> []" "path_exists (fs s) d" "isdir (fs s) (dirname d)"
    "in_tree (dirname d) q"
  shows "\<not> path_exists (fs (snd (handle_disconnect s ev))) q \<and> repo_dir (snd (handle_disconnect s ev)) = None"
proof -
  let ?s1 = "case mcp_process s of None \<Rightarrow> s | Some p \<Rightarrow> (kill s p)\<lparr>mcp_process := None\<rparr>"
  have s1: "fs ?s1 = fs s \<and> repo_dir ?s1 = repo_dir s"
    using kill_effect more_state [of "kill s p" s for p]
    by (auto split: option.splits)
  have "snd (handle_disconnect s ev) = ?s1\<lparr>fs := rmtree (fs ?s1) (dirname d), repo_dir := None\<rparr>"
    using assms(1,2,3) s1 by (simp add: handle_disconnect_def Let_def)
  then have "fs (snd (handle_disconnect s ev)) = rmtree (fs s) (dirname d) \<and>
             repo_dir (snd (handle_disconnect s ev)) = None"
    using s1 by simp
  then show ?thesis
    using assms(4,5) by (auto simp: rmtree_def path_exists_def)
qed

text \<open>
  C4 (as amended). The handler keeps one process for the whole container, not one per
  connection: after any sequence of invocations and child exits, a process that is
  running is the one \<open>_mcp_process\<close> refers to, so at most one is running. A disconnect
  event, of whichever connection, leaves no process running and \<open>_mcp_process\<close> unset,
  removes the tree of the parent directory of \<open>_repo_dir\<close> when that workspace exists,
  and leaves \<open>_connection_params\<close> as it was: the entry of the connection stays.
\<close>

theorem one_process_and_disconnect:
  "(\<forall>i<length (procs (run L (initial f) ins)).
      running (procs (run L (initial f) ins) ! i) \<longrightarrow> mcp_process (run L (initial f) ins) = Some i) \<and>
   (\<forall>i<length (procs (run L (initial f) ins)).
      \<not> running (procs (snd (handle_disconnect (run L (initial f) ins) ev)) ! i)) \<and>
   length (procs (snd (handle_disconnect (run L (initial f) ins) ev))) = length (procs (run L (initial f) ins)) \<and>
   mcp_process (snd (handle_disconnect (run L (initial f) ins) ev)) = None \<and>
   connection_params (snd (handle_disconnect (run L (initial f) ins) ev)) =
     connection_params (run L (initial f) ins) \<and>
   (\<forall>d q. repo_dir (run L (initial f) ins) = Some d \<and> d \<noteq> [] \<and>
      path_exists (fs (run L (initial f) ins)) d \<and> isdir (fs (run L (initial f) ins)) (dirname d) \<and>
      in_tree (dirname d) q \<longrightarrow>
      \<not> path_exists (fs (snd (handle_disconnect (run L (initial f) ins) ev))) q)"
proof -
  let ?s = "run L (initial f) ins"
  note inv = reachable_inv [of L f ins]
  note e = handle_disconnect_effect [of ?s ev]
  have a: "\<forall>i<length (procs ?s). running (procs ?s ! i) \<longrightarrow> mcp_process ?s = Some i"
    using inv by (simp add: session_inv_iff alive_def)
  have b: "\<forall>i<length (procs ?s). \<not> running (procs (snd (handle_disconnect ?s ev)) ! i)"
    using handle_disconnect_none_alive [OF inv, of _ ev] e by (simp add: alive_def)
  show ?thesis
    using a b e disconnect_removes_tree [of ?s _ _ ev] by blast
qed

theorem one_process_and_disconnect_witness:
  "repo_dir (run demo_lib (initial []) [demo_connect ''c1'' ''python'', demo_message ''c1'' (render ping) ''t1'']) =
     Some ''/tmp/mcp_demo_t1/repo'' \<and>
   map running (procs (run demo_lib (initial []) [demo_connect ''c1'' ''python'', demo_message ''c1'' (render ping) ''t1''])) = [True] \<and>
   mcp_process (run demo_lib (initial []) [demo_connect ''c1'' ''python'', demo_message ''c1'' (render ping) ''t1'']) = Some 0 \<and>
   \<not> running (procs (snd (handle_disconnect
       (run demo_lib (initial []) [demo_connect ''c1'' ''python'', demo_message ''c1'' (render ping) ''t1''])
       (ws_event ''$disconnect'' ''c1'' None []))) ! 0) \<and>
   \<not> path_exists (fs (snd (handle_disconnect
       (run demo_lib (initial []) [demo_connect ''c1'' ''python'', demo_message ''c1'' (render ping) ''t1''])
       (ws_event ''$disconnect'' ''c1'' None [])))) ''/tmp/mcp_demo_t1/repo/main.py''"
proof -
  let ?s = "run demo_lib (initial []) [demo_connect ''c1'' ''python'', demo_message ''c1'' (render ping) ''t1'']"
  have a: "repo_dir ?s = Some ''/tmp/mcp_demo_t1/repo''" by code_simp
  have b: "map running (procs ?s) = [True]" by code_simp
  have c: "mcp_process ?s = Some 0" by code_simp
  have d: "path_exists (fs ?s) ''/tmp/mcp_demo_t1/repo''" by code_simp
  have e: "isdir (fs ?s) (dirname ''/tmp/mcp_demo_t1/repo'')" by code_simp
  have g: "in_tree (dirname ''/tmp/mcp_demo_t1/repo'') ''/tmp/mcp_demo_t1/repo/main.py''" by code_simp
  have l: "length (procs ?s) = 1" using b by (metis length_map length_Cons list.size(3) One_nat_def)
  note t = one_process_and_disconnect [of demo_lib "[]"
      "[demo_connect ''c1'' ''python'', demo_message ''c1'' (render ping) ''t1'']"
      "ws_event ''$disconnect'' ''c1'' None []"]
  have "\<not> running (procs (snd (handle_disconnect ?s (ws_event ''$disconnect'' ''c1'' None []))) ! 0)"
    using t l by simp
  moreover have "\<not> path_exists (fs (snd (handle_disconnect ?s (ws_event ''$disconnect'' ''c1'' None []))))
      ''/tmp/mcp_demo_t1/repo/main.py''"
    using t a d e g by blast
  ultimately show ?thesis
    using a b c by blast
qed

theorem disconnect_keeps_registry_entry:
  "map_of (connection_params (run demo_lib (initial [])
      [demo_connect ''c1'' ''python'', demo_disconnect ''c1''])) ''c1'' = Some (demo_query ''python'') \<and>
   map running (procs (run demo_lib (initial [])
      [demo_connect ''c1'' ''python'', demo_connect ''c2'' ''python'',
       demo_message ''c1'' (render ping) ''t1''])) = [True] \<and>
   map running (procs (run demo_lib (initial [])
      [demo_connect ''c1'' ''python'', demo_connect ''c2'' ''python'',
       demo_message ''c1'' (render ping) ''t1'', demo_disconnect ''c2''])) = [False]"
  by code_simp

section \<open>Provisioning comes before the language check\<close>





















section \<open>Removal of the workspace\<close>

lemma path_join_longer: "n \<noteq> [] \<Longrightarrow> CHR ''/'' \<notin> set n \<Longrightarrow> length t < length (path_join t n)"
  by (cases n) (auto simp: path_join_def startswith_def)

lemma not_in_tree_of_longer: "length t < length d \<Longrightarrow> \<not> in_tree d t"
proof
  assume l: "length t < length d" and "in_tree d t"
  then have "beneath d t" by (auto simp: in_tree_def)
  then have "length d \<le> length t"
    by (auto simp: beneath_def startswith_def split: if_splits dest!: arg_cong [where f = length])
  then show False using l by simp
qed

lemma os_rename_keeps_parent:
  assumes "os_rename L f (path_join t n) (path_join t m) = Inr f'" "n \<noteq> []" "CHR ''/'' \<notin> set n"
    "m \<noteq> []" "CHR ''/'' \<notin> set m" "(t, True) \<in> set f"
  shows "(t, True) \<in> set f'"
proof (cases "path_join t n = path_join t m")
  case True
  then show ?thesis using assms by (auto simp: os_rename_def split: if_splits)
next
  case False
  have a: "\<not> in_tree (path_join t n) t"
    using not_in_tree_of_longer [OF path_join_longer [OF assms(2,3)]] .
  have b: "t \<noteq> path_join t m"
    using path_join_longer [OF assms(4,5), of t] by auto
  from assms(1) False
  have f': "f' = map (\<lambda>e. if in_tree (path_join t n) (fst e)
                          then (path_join t m @ drop (length (path_join t n)) (fst e), snd e) else e)
                   (filter (\<lambda>e. fst e \<noteq> path_join t m) f)"
    by (auto simp: os_rename_def split: if_splits)
  have "(t, True) \<in> set (filter (\<lambda>e. fst e \<noteq> path_join t m) f)"
    using assms(6) b by simp
  then show ?thesis
    unfolding f' using a by (force simp: image_iff)
qed

lemma os_remove_keeps_dir:
  "os_remove L f p = Inr f' \<Longrightarrow> (t, True) \<in> set f \<Longrightarrow> (t, True) \<in> set f'"
  by (auto simp: os_remove_def isdir_def split: if_splits)

lemma listdir_names: "n \<in> set (listdir f d) \<Longrightarrow> n \<noteq> [] \<and> CHR ''/'' \<notin> set n"
  by (auto simp: listdir_def)

lemma fetch_and_unpack_keeps_parent:
  assumes "fetch_and_unpack L E msg w t z = (r, w')" "(t, True) \<in> set (fs w)"
  shows "(t, True) \<in> set (fs w')"
proof (cases "urlretrieve E z")
  case (FetchFailed e)
  then show ?thesis using assms by (auto simp: fetch_and_unpack_def Let_def)
next
  case (BadArchive e)
  then show ?thesis using assms by (auto simp: fetch_and_unpack_def Let_def)
next
  case (Archive entries)
  let ?f3 = "fs w @ [(path_join t ''repo.zip'', False)] @ map (\<lambda>e. (t @ ''/'' @ fst e, snd e)) entries"
  let ?folders = "filter (\<lambda>n. isdir ?f3 (path_join t n)) (listdir ?f3 t)"
  have t3: "(t, True) \<in> set ?f3" using assms(2) by simp
  show ?thesis
  proof (cases ?folders)
    case Nil
    then show ?thesis
      using assms Archive by (auto simp: fetch_and_unpack_def Let_def)
  next
    case (Cons f0 rest)
    then have "f0 \<in> set ?folders" by simp
    then have f0: "f0 \<noteq> []" "CHR ''/'' \<notin> set f0" using listdir_names [of f0 ?f3 t] by simp_all
    show ?thesis
    proof (cases "os_rename L ?f3 (path_join t f0) (path_join t ''repo'')")
      case (Inl e)
      then show ?thesis
        using assms Archive Cons by (auto simp: fetch_and_unpack_def Let_def)
    next
      case (Inr f4)
      have t4: "(t, True) \<in> set f4"
        using os_rename_keeps_parent [OF Inr f0 _ _ t3] by simp
      show ?thesis
      proof (cases "os_remove L f4 (path_join t ''repo.zip'')")
        case (Inl e)
        then show ?thesis
          using assms Archive Cons Inr t4 by (auto simp: fetch_and_unpack_def Let_def)
      next
        case (Inr f5)
        then have "(t, True) \<in> set f5" using os_remove_keeps_dir t4 by blast
        then show ?thesis
          using assms Archive Cons \<open>os_rename L ?f3 (path_join t f0) (path_join t ''repo'') = Inr f4\<close> Inr
          by (auto simp: fetch_and_unpack_def Let_def)
      qed
    qed
  qed
qed

lemma rmtree_removes:
  "(d, True) \<in> set f \<Longrightarrow> in_tree d q \<Longrightarrow> \<not> path_exists (rmtree f d) q"
  by (auto simp: rmtree_def isdir_def path_exists_def)

lemma failed_clone_leaves_nothing:
  "(aws_clone_repo L E w url n = (Inl e, w') \<longrightarrow>
      (\<forall>q. in_tree (mkdtemp E (''mcp_'' @ fmt L n @ ''_'')) q \<longrightarrow> \<not> path_exists (fs w') q)) \<and>
   (clone_repo L E w url n = (Inl e, w') \<longrightarrow>
      (\<forall>q. in_tree (mkdtemp E (''mcp_'' @ fmt L n @ ''_'')) q \<longrightarrow> \<not> path_exists (fs w') q))"
proof (rule conjI; rule impI)
  let ?t = "mkdtemp E (''mcp_'' @ fmt L n @ ''_'')"
  let ?w1 = "w\<lparr>fs := fs w @ [(?t, True)]\<rparr>"
  assume a: "aws_clone_repo L E w url n = (Inl e, w')"
  obtain r1 w2 where att: "aws_clone_attempt L E ?w1 ?t url = (r1, w2)"
    by (cases "aws_clone_attempt L E ?w1 ?t url")
  have "(?t, True) \<in> set (fs w2)"
    using att
    by (auto simp: aws_clone_attempt_def split: sum.splits bool.splits json.splits
          dest!: fetch_and_unpack_keeps_parent)
  moreover have "fs w' = rmtree (fs w2) ?t"
    using a att by (auto simp: aws_clone_repo_def Let_def split: sum.splits)
  ultimately show "\<forall>q. in_tree ?t q \<longrightarrow> \<not> path_exists (fs w') q"
    using rmtree_removes by simp
next
  let ?t = "mkdtemp E (''mcp_'' @ fmt L n @ ''_'')"
  let ?w1 = "w\<lparr>fs := fs w @ [(?t, True)]\<rparr>"
  assume a: "clone_repo L E w url n = (Inl e, w')"
  obtain r1 w2 where att: "clone_attempt L E ?w1 ?t url = (r1, w2)"
    by (cases "clone_attempt L E ?w1 ?t url")
  have d: "(?t, True) \<in> set (fs w2)"
    using att
    by (auto simp: clone_attempt_def split: sum.splits bool.splits json.splits
          dest!: fetch_and_unpack_keeps_parent)
  then have "path_exists (fs w2) ?t" by (force simp: path_exists_def)
  then have "fs w' = rmtree (fs w2) ?t"
    using a att by (auto simp: clone_repo_def Let_def split: sum.splits)
  then show "\<forall>q. in_tree ?t q \<longrightarrow> \<not> path_exists (fs w') q"
    using rmtree_removes d by simp
qed

text \<open>
  C3 (as amended). After a disconnect event of the persistent handler, when
  \<open>_repo_dir\<close> is set and that workspace exists (its parent being a directory), no path
  in the tree of the parent directory exists any more, workspace included, and
  \<open>_repo_dir\<close> is unset. And when \<open>clone_repo\<close> itself fails, in either variant, no path
  in the tree of the temporary directory it made exists afterwards. In the witness
  the parent of the workspace is the directory \<open>mkdtemp\<close> made.
\<close>

theorem disconnect_removes_workspace:
  "(repo_dir s = Some d \<and> d \<noteq> [] \<and> path_exists (fs s) d \<and> isdir (fs s) (dirname d) \<and>
    in_tree (dirname d) q \<longrightarrow>
      \<not> path_exists (fs (snd (handle_disconnect s ev))) q \<and>
      repo_dir (snd (handle_disconnect s ev)) = None) \<and>
   (aws_clone_repo L E w url n = (Inl e, w') \<and> in_tree (mkdtemp E (''mcp_'' @ fmt L n @ ''_'')) q \<longrightarrow>
      \<not> path_exists (fs w') q) \<and>
   (clone_repo L E w url n = (Inl e, w') \<and> in_tree (mkdtemp E (''mcp_'' @ fmt L n @ ''_'')) q \<longrightarrow>
      \<not> path_exists (fs w') q)"
  using disconnect_removes_tree [of s d q ev] failed_clone_leaves_nothing [of L E w url n e w']
  by blast

theorem disconnect_removes_workspace_witness:
  "repo_dir (run demo_lib (initial []) [demo_connect ''c1'' ''python'', demo_message ''c1'' (render ping) ''t1'']) =
     Some ''/tmp/mcp_demo_t1/repo'' \<and>
   dirname ''/tmp/mcp_demo_t1/repo'' = ''/tmp/mcp_demo_t1'' \<and>
   path_exists (fs (run demo_lib (initial []) [demo_connect ''c1'' ''python'', demo_message ''c1'' (render ping) ''t1'']))
     ''/tmp/mcp_demo_t1/repo'' \<and>
   \<not> path_exists (fs (snd (handle_disconnect
        (run demo_lib (initial []) [demo_connect ''c1'' ''python'', demo_message ''c1'' (render ping) ''t1''])
        (ws_event ''$disconnect'' ''c1'' None [])))) ''/tmp/mcp_demo_t1/repo'' \<and>
   fst (aws_clone_repo demo_lib (demo_outside ''t1'') empty_world (JString ''https://github.com/acme/none'')
        (JString ''demo'')) = Inl (Exn ''Exception'' ''Clone failed: HTTP Error 404: Not Found'') \<and>
   mkdtemp (demo_outside ''t1'') (''mcp_'' @ fmt demo_lib (JString ''demo'') @ ''_'') = ''/tmp/mcp_demo_t1'' \<and>
   \<not> path_exists (fs (snd (aws_clone_repo demo_lib (demo_outside ''t1'') empty_world
        (JString ''https://github.com/acme/none'') (JString ''demo'')))) ''/tmp/mcp_demo_t1''"
proof -
  let ?s = "run demo_lib (initial []) [demo_connect ''c1'' ''python'', demo_message ''c1'' (render ping) ''t1'']"
  let ?c = "aws_clone_repo demo_lib (demo_outside ''t1'') empty_world (JString ''https://github.com/acme/none'')
        (JString ''demo'')"
  have a: "repo_dir ?s = Some ''/tmp/mcp_demo_t1/repo''" by code_simp
  have b: "dirname ''/tmp/mcp_demo_t1/repo'' = ''/tmp/mcp_demo_t1''" by code_simp
  have c: "path_exists (fs ?s) ''/tmp/mcp_demo_t1/repo''" by code_simp
  have d: "isdir (fs ?s) ''/tmp/mcp_demo_t1''" by code_simp
  have e: "in_tree ''/tmp/mcp_demo_t1'' ''/tmp/mcp_demo_t1/repo''" by code_simp
  have g: "in_tree ''/tmp/mcp_demo_t1'' ''/tmp/mcp_demo_t1''" by code_simp
  have n: "''/tmp/mcp_demo_t1/repo'' \<noteq> []" by simp
  have h: "fst ?c = Inl (Exn ''Exception'' ''Clone failed: HTTP Error 404: Not Found'')" by code_simp
  have h': "?c = (Inl (Exn ''Exception'' ''Clone failed: HTTP Error 404: Not Found''), snd ?c)"
    using h by (simp add: prod_eq_iff)
  have m: "mkdtemp (demo_outside ''t1'') (''mcp_'' @ fmt demo_lib (JString ''demo'') @ ''_'') = ''/tmp/mcp_demo_t1''"
    by code_simp
  have "\<not> path_exists (fs (snd (handle_disconnect ?s (ws_event ''$disconnect'' ''c1'' None []))))
          ''/tmp/mcp_demo_t1/repo''"
    using a c d e n
      disconnect_removes_workspace [where s = ?s and d = "''/tmp/mcp_demo_t1/repo''" and
        q = "''/tmp/mcp_demo_t1/repo''" and ev = "ws_event ''$disconnect'' ''c1'' None []"]
    unfolding b by blast
  moreover have "\<not> path_exists (fs (snd ?c)) ''/tmp/mcp_demo_t1''"
    using h' g
      disconnect_removes_workspace [where L = demo_lib and E = "demo_outside ''t1''" and w = empty_world and
        url = "JString ''https://github.com/acme/none''" and n = "JString ''demo''" and
        e = "Exn ''Exception'' ''Clone failed: HTTP Error 404: Not Found''" and w' = "snd ?c" and
        q = "''/tmp/mcp_demo_t1''"]
    unfolding m by blast
  ultimately show ?thesis
    using a b c h m by blast
qed

theorem workspace_left_behind:
  "path_exists (fs (run demo_lib (initial [])
      [demo_connect ''c1'' ''ruby'', demo_message ''c1'' (render ping) ''t1''])) ''/tmp/mcp_demo_t1/repo'' \<and>
   path_exists (fs (run demo_lib (initial [])
      [demo_connect ''c1'' ''ruby'', demo_message ''c1'' (render ping) ''t1'',
       demo_message ''c1'' (render ping) ''t2'', demo_disconnect ''c1''])) ''/tmp/mcp_demo_t1/repo'' \<and>
   \<not> path_exists (fs (run demo_lib (initial [])
      [demo_connect ''c1'' ''ruby'', demo_message ''c1'' (render ping) ''t1'',
       demo_message ''c1'' (render ping) ''t2'', demo_disconnect ''c1''])) ''/tmp/mcp_demo_t2/repo'' \<and>
   statusCode (fst (lambda_handler demo_lib (demo_outside ''t1'') empty_world
      (http_event ''/demo'' (demo_query ''python'') (render ping)))) = 200 \<and>
   path_exists (fs (snd (lambda_handler demo_lib (demo_outside ''t1'') empty_world
      (http_event ''/demo'' (demo_query ''python'') (render ping))))) ''/tmp/mcp_demo_t1/repo''"
  by code_simp

section \<open>The message that is forwarded\<close>








section \<open>A child that prints nothing\<close>




section \<open>The name given inside the message\<close>









section \<open>The timeout of the single-shot variant\<close>





end
